theory Spec2Isabelle
  imports Complex_Main
begin

unbundle bit_operations_syntax

section \<open>Python values shared by the three analysis stages\<close>

text \<open>
  Python floats are embedded as HOL reals: rounding, infinities and NaN of IEEE double
  arithmetic are outside the model. Every threshold the stages compare against
  (\<open>0.3\<close>, \<open>0.6\<close>, \<open>0.8\<close>, \<open>0.95\<close>) is the decimal the source writes.

  Exceptions are values. The stages call NumPy and OpenCV for every pixel-level
  computation; such a call either returns or raises a subclass of Python's
  \<open>Exception\<close>.
\<close>

datatype py_exception =
  CvError | ValueError | AttributeError | TypeError | ZeroDivisionError | IndexError

text \<open>
  An 8-bit RGB image is a height x width x 3 array: a list of rows of pixels.
  \<open>ndarray_size\<close> is NumPy's \<open>image.size\<close>, the number of array elements.
\<close>

type_synonym rgb_image = "(nat \<times> nat \<times> nat) list list"

definition ndarray_size :: "rgb_image \<Rightarrow> nat" where
  "ndarray_size img = 3 * length (concat img)"

section \<open>Quality Assessor (models/quality\_assessor.py)\<close>

text \<open>
  The four degradation analyses (\<open>_analyze_color_degradation\<close>,
  \<open>_analyze_texture_degradation\<close>, \<open>_analyze_shape_degradation\<close>,
  \<open>_analyze_surface_condition\<close>) are OpenCV pipelines (colour-space conversion,
  Canny, Otsu thresholding, contour search, Hough lines). They enter the model as
  functions of the image and the crop type that return a float or raise; every theorem
  below holds for whatever they compute.
\<close>

record quality_analyses =
  analyze_color_degradation :: "rgb_image \<Rightarrow> string \<Rightarrow> py_exception + real"
  analyze_texture_degradation :: "rgb_image \<Rightarrow> string \<Rightarrow> py_exception + real"
  analyze_shape_degradation :: "rgb_image \<Rightarrow> string \<Rightarrow> py_exception + real"
  analyze_surface_condition :: "rgb_image \<Rightarrow> string \<Rightarrow> py_exception + real"

record indicator_scores =
  color :: real
  texture :: real
  shape :: real
  surface :: real

record quality_result =
  status :: string
  confidence :: real
  spoilage_score :: real
  indicators :: indicator_scores

text \<open>\<open>_get_default_result\<close>: the fixed fallback dictionary.\<close>

definition get_default_result :: quality_result where
  "get_default_result =
     \<lparr>status = ''unknown'', confidence = 0.5, spoilage_score = 0.5,
      indicators = \<lparr>color = 0.5, texture = 0.5, shape = 0.5, surface = 0.5\<rparr>\<rparr>"

text \<open>
  \<open>_calculate_spoilage_score\<close>: the per-crop weight table, in the source's order, and
  \<open>weights.get(crop_type, weights['corn'])\<close>.
\<close>

definition corn_weights :: indicator_scores where
  "corn_weights = \<lparr>color = 0.4, texture = 0.3, shape = 0.1, surface = 0.2\<rparr>"

definition weights :: "(string \<times> indicator_scores) list" where
  "weights =
     [(''corn'', corn_weights),
      (''tomato'', \<lparr>color = 0.3, texture = 0.2, shape = 0.2, surface = 0.3\<rparr>),
      (''yam'', \<lparr>color = 0.4, texture = 0.2, shape = 0.1, surface = 0.3\<rparr>),
      (''cassava'', \<lparr>color = 0.4, texture = 0.2, shape = 0.1, surface = 0.3\<rparr>)]"

definition crop_weights :: "string \<Rightarrow> indicator_scores" where
  "crop_weights crop_type =
     (case map_of weights crop_type of Some w \<Rightarrow> w | None \<Rightarrow> corn_weights)"

definition weighted_sum :: "real \<Rightarrow> real \<Rightarrow> real \<Rightarrow> real \<Rightarrow> string \<Rightarrow> real" where
  "weighted_sum c t sh su crop_type =
     c * color (crop_weights crop_type) + t * texture (crop_weights crop_type)
     + sh * shape (crop_weights crop_type) + su * surface (crop_weights crop_type)"

definition calculate_spoilage_score :: "real \<Rightarrow> real \<Rightarrow> real \<Rightarrow> real \<Rightarrow> string \<Rightarrow> real" where
  "calculate_spoilage_score c t sh su crop_type = min (weighted_sum c t sh su crop_type) 1.0"

text \<open>
  The body of the \<open>try\<close> block after input validation: the four analyses in the
  source's order; the first one that raises ends the computation.
\<close>

definition compute_features ::
  "quality_analyses \<Rightarrow> rgb_image \<Rightarrow> string \<Rightarrow> py_exception + (real \<times> real \<times> real \<times> real)" where
  "compute_features A img crop_type =
     (case analyze_color_degradation A img crop_type of
        Inl e \<Rightarrow> Inl e
      | Inr color_analysis \<Rightarrow>
     (case analyze_texture_degradation A img crop_type of
        Inl e \<Rightarrow> Inl e
      | Inr texture_analysis \<Rightarrow>
     (case analyze_shape_degradation A img crop_type of
        Inl e \<Rightarrow> Inl e
      | Inr shape_analysis \<Rightarrow>
     (case analyze_surface_condition A img crop_type of
        Inl e \<Rightarrow> Inl e
      | Inr surface_analysis \<Rightarrow>
          Inr (color_analysis, texture_analysis, shape_analysis, surface_analysis)))))"

text \<open>The decision taken once the four indicators are known (source lines 33 to 55).\<close>

definition decide :: "real \<Rightarrow> real \<Rightarrow> real \<Rightarrow> real \<Rightarrow> string \<Rightarrow> quality_result" where
  "decide color_analysis texture_analysis shape_analysis surface_analysis crop_type =
     (let score = calculate_spoilage_score color_analysis texture_analysis shape_analysis
                    surface_analysis crop_type;
          (st, conf) = (if score < 0.3 then (''fresh'', 1.0 - score) else (''spoiled'', score))
      in \<lparr>status = st, confidence = min conf 0.95, spoilage_score = score,
          indicators = \<lparr>color = color_analysis, texture = texture_analysis,
                        shape = shape_analysis, surface = surface_analysis\<rparr>\<rparr>)"

text \<open>
  \<open>assess_quality\<close>. The argument is \<open>None\<close> or an array (a PIL image has been
  converted by \<open>np.array\<close>). \<open>except Exception\<close> turns every exception of the
  feature computation into the default result.
\<close>

definition assess_quality :: "quality_analyses \<Rightarrow> rgb_image option \<Rightarrow> string \<Rightarrow> quality_result" where
  "assess_quality A image_arg crop_type =
     (case image_arg of
        None \<Rightarrow> get_default_result
      | Some img \<Rightarrow>
          if ndarray_size img = 0 then get_default_result
          else (case compute_features A img crop_type of
                  Inl e \<Rightarrow> get_default_result
                | Inr (c, t, sh, su) \<Rightarrow> decide c t sh su crop_type))"

text \<open>
  The feature computation of \<open>assess_quality\<close> succeeds when the image passes the
  validation and no analysis raises.
\<close>

definition features_of ::
  "quality_analyses \<Rightarrow> rgb_image option \<Rightarrow> string \<Rightarrow> (real \<times> real \<times> real \<times> real) option" where
  "features_of A image_arg crop_type =
     (case image_arg of
        None \<Rightarrow> None
      | Some img \<Rightarrow>
          if ndarray_size img = 0 then None
          else (case compute_features A img crop_type of
                  Inl e \<Rightarrow> None
                | Inr f \<Rightarrow> Some f))"

section \<open>Disease Detector (models/disease\_detector.py)\<close>

text \<open>
  The catalogue \<open>self.disease_patterns\<close>: Python dictionaries keep insertion order, so
  each level is an association list in the order of the source.
\<close>

record disease_entry =
  color_patterns :: "string list"
  texture_patterns :: "string list"
  severity_indicators :: "string list"

definition disease_patterns :: "(string \<times> (string \<times> disease_entry) list) list" where
  "disease_patterns =
     [(''corn'',
        [(''fungal_infection'',
            \<lparr>color_patterns = [''gray_spots'', ''black_mold''],
             texture_patterns = [''fuzzy_growth'', ''irregular_surface''],
             severity_indicators = [''spot_coverage'', ''color_intensity'']\<rparr>),
         (''bacterial_rot'',
            \<lparr>color_patterns = [''brown_discoloration'', ''yellow_edges''],
             texture_patterns = [''soft_kernels'', ''liquid_discharge''],
             severity_indicators = [''affected_area'', ''color_depth'']\<rparr>),
         (''pest_damage'',
            \<lparr>color_patterns = [''holes'', ''chewed_kernels''],
             texture_patterns = [''irregular_holes'', ''damaged_surface''],
             severity_indicators = [''hole_count'', ''damage_extent'']\<rparr>),
         (''overripeness'',
            \<lparr>color_patterns = [''dark_kernels'', ''brown_patches''],
             texture_patterns = [''dried_surface'', ''hardened_kernels''],
             severity_indicators = [''dryness_level'', ''color_change'']\<rparr>)]),
      (''tomato'',
        [(''fungal_infection'',
            \<lparr>color_patterns = [''gray_mold'', ''white_fuzzy_spots''],
             texture_patterns = [''fuzzy_growth'', ''soft_spots''],
             severity_indicators = [''mold_coverage'', ''softness_degree'']\<rparr>),
         (''bacterial_rot'',
            \<lparr>color_patterns = [''dark_spots'', ''black_patches''],
             texture_patterns = [''liquid_spots'', ''soft_areas''],
             severity_indicators = [''spot_size'', ''liquid_amount'']\<rparr>),
         (''overripeness'',
            \<lparr>color_patterns = [''deep_red'', ''brown_patches''],
             texture_patterns = [''soft_skin'', ''wrinkled_surface''],
             severity_indicators = [''softness'', ''wrinkling'']\<rparr>),
         (''blossom_end_rot'',
            \<lparr>color_patterns = [''black_bottom'', ''dark_circular_spot''],
             texture_patterns = [''sunken_area'', ''hardened_spot''],
             severity_indicators = [''spot_diameter'', ''depth'']\<rparr>)]),
      (''yam'',
        [(''fungal_infection'',
            \<lparr>color_patterns = [''white_mold'', ''gray_spots''],
             texture_patterns = [''fuzzy_surface'', ''soft_spots''],
             severity_indicators = [''mold_extent'', ''softness'']\<rparr>),
         (''bacterial_rot'',
            \<lparr>color_patterns = [''dark_patches'', ''black_spots''],
             texture_patterns = [''soft_areas'', ''liquid_discharge''],
             severity_indicators = [''patch_size'', ''softness_degree'']\<rparr>),
         (''storage_rot'',
            \<lparr>color_patterns = [''brown_discoloration'', ''dark_areas''],
             texture_patterns = [''soft_flesh'', ''collapsed_areas''],
             severity_indicators = [''discoloration_extent'', ''firmness_loss'']\<rparr>),
         (''sprouting'',
            \<lparr>color_patterns = [''green_shoots'', ''white_roots''],
             texture_patterns = [''protruding_growth'', ''bumpy_surface''],
             severity_indicators = [''sprout_length'', ''number_of_sprouts'']\<rparr>)]),
      (''cassava'',
        [(''fungal_infection'',
            \<lparr>color_patterns = [''black_spots'', ''gray_mold''],
             texture_patterns = [''fuzzy_growth'', ''soft_areas''],
             severity_indicators = [''spot_coverage'', ''mold_density'']\<rparr>),
         (''bacterial_rot'',
            \<lparr>color_patterns = [''brown_streaks'', ''dark_discoloration''],
             texture_patterns = [''soft_flesh'', ''watery_areas''],
             severity_indicators = [''streak_length'', ''softness'']\<rparr>),
         (''storage_deterioration'',
            \<lparr>color_patterns = [''blue_discoloration'', ''brown_lines''],
             texture_patterns = [''fiber_separation'', ''tough_areas''],
             severity_indicators = [''discoloration_depth'', ''fiber_damage'']\<rparr>),
         (''pest_damage'',
            \<lparr>color_patterns = [''holes'', ''chewed_areas''],
             texture_patterns = [''tunnel_patterns'', ''irregular_holes''],
             severity_indicators = [''hole_density'', ''tunnel_extent'']\<rparr>)])]"

subsection \<open>Arrays and the library side\<close>

text \<open>
  Arrays are rectangular and, inside one analysis, all of the shape of the image, as
  OpenCV returns them: single-channel 8-bit arrays (grey images, edge maps, 0/1 masks),
  three-channel 8-bit arrays (RGB, HSV, LAB), float arrays and Boolean masks. Elementwise
  operations pair the entries of two such arrays.
\<close>

type_synonym gray_image = "nat list list"

type_synonym float_array = "real list list"

type_synonym bool_mask = "bool list list"

datatype ndarray = Color rgb_image | Gray gray_image

text \<open>
  A contour found by \<open>cv2.findContours\<close>, with what the methods measure on it:
  \<open>cv2.contourArea\<close>, \<open>cv2.arcLength(contour, True)\<close> and the side lengths
  \<open>cv2.minAreaRect(contour)[1]\<close>.
\<close>

record contour =
  contourArea :: real
  arcLength :: real
  minAreaRect_size :: "real \<times> real"

text \<open>
  The library calls of the stage; each returns its array or raises:
  \<^item> \<open>cvt_RGB2HSV\<close>, \<open>cvt_RGB2LAB\<close>, \<open>cvt_RGB2GRAY\<close>, \<open>cvt_HSV2GRAY\<close>:
    \<open>cv2.cvtColor(array, cv2.COLOR_...)\<close> (the source also hands a grey image to the
    RGB-to-grey conversion);
  \<^item> \<open>Canny\<close>: \<open>cv2.Canny(gray, 50, 150)\<close>;
  \<^item> \<open>dilate\<close>: \<open>cv2.dilate(edges, np.ones((k,k), np.uint8), iterations=1)\<close>;
  \<^item> \<open>dark_contours\<close>: \<open>cv2.adaptiveThreshold(gray, 255,
    cv2.ADAPTIVE_THRESH_MEAN_C, cv2.THRESH_BINARY, 11, 2)\<close> followed by
    \<open>cv2.findContours(255 - thresh, cv2.RETR_EXTERNAL, cv2.CHAIN_APPROX_SIMPLE)\<close>;
  \<^item> \<open>filter2D\<close>: \<open>cv2.filter2D(array, -1, np.ones((5,5), np.float32) / 25)\<close>;
  \<^item> \<open>morphologyEx\<close>: \<open>cv2.morphologyEx(array, op, kernel)\<close> with a rectangular
    kernel of ones of the given size;
  \<^item> \<open>Laplacian\<close>: \<open>cv2.Laplacian(gray, cv2.CV_64F)\<close>;
  \<^item> \<open>Sobel\<close>: \<open>cv2.Sobel(gray, cv2.CV_64F, dx, dy, ksize=3)\<close>;
  \<^item> \<open>GaussianBlur\<close>: \<open>cv2.GaussianBlur(gray, (15, 15), 0)\<close>;
  \<^item> \<open>percentile\<close>: \<open>np.percentile\<close> of the flattened array;
  \<^item> \<open>str_title\<close>: Python's \<open>str.title\<close>.
\<close>

record opencv =
  cvt_RGB2HSV :: "rgb_image \<Rightarrow> py_exception + rgb_image"
  cvt_RGB2LAB :: "rgb_image \<Rightarrow> py_exception + rgb_image"
  cvt_RGB2GRAY :: "ndarray \<Rightarrow> py_exception + gray_image"
  cvt_HSV2GRAY :: "rgb_image \<Rightarrow> py_exception + gray_image"
  Canny :: "gray_image \<Rightarrow> py_exception + gray_image"
  dilate :: "gray_image \<Rightarrow> nat \<Rightarrow> py_exception + gray_image"
  dark_contours :: "gray_image \<Rightarrow> py_exception + contour list"
  filter2D :: "float_array \<Rightarrow> py_exception + float_array"
  morphologyEx :: "gray_image \<Rightarrow> string \<Rightarrow> nat \<times> nat \<Rightarrow> py_exception + gray_image"
  Laplacian :: "gray_image \<Rightarrow> py_exception + float_array"
  Sobel :: "gray_image \<Rightarrow> nat \<Rightarrow> nat \<Rightarrow> py_exception + float_array"
  GaussianBlur :: "gray_image \<Rightarrow> py_exception + gray_image"
  percentile :: "real list \<Rightarrow> real \<Rightarrow> real"
  str_title :: "string \<Rightarrow> string"

text \<open>Sequencing: the statement after a call runs only when the call returned.\<close>

definition and_then :: "py_exception + 'a \<Rightarrow> ('a \<Rightarrow> py_exception + 'b) \<Rightarrow> py_exception + 'b" where
  "and_then r f = (case r of Inl e \<Rightarrow> Inl e | Inr x \<Rightarrow> f x)"

text \<open>
  NumPy on arrays: \<open>np.mean\<close>, \<open>np.var\<close>, \<open>np.std\<close>, the conversions
  \<open>astype\<close> and elementwise operations. The mean of an empty array is NaN in NumPy
  and so outside the model; OpenCV refuses an empty image, and the arrays of an analysis
  have the shape of its image.
\<close>

definition mask_mean :: "bool_mask \<Rightarrow> real" where
  "mask_mean m = real (length (filter id (concat m))) / real (length (concat m))"

definition np_mean :: "float_array \<Rightarrow> real" where
  "np_mean a = sum_list (concat a) / real (length (concat a))"

definition np_var :: "float_array \<Rightarrow> real" where
  "np_var a = np_mean (map (map (\<lambda>x. \<bar>x - np_mean a\<bar> ^ 2)) a)"

definition np_std :: "float_array \<Rightarrow> real" where
  "np_std a = sqrt (np_var a)"

definition as_float :: "gray_image \<Rightarrow> float_array" where
  "as_float a = map (map real) a"

definition as_uint8 :: "bool_mask \<Rightarrow> gray_image" where
  "as_uint8 m = map (map (\<lambda>b. if b then 1 else 0)) m"

definition elementwise :: "('a \<Rightarrow> 'b \<Rightarrow> 'c) \<Rightarrow> 'a list list \<Rightarrow> 'b list list \<Rightarrow> 'c list list" where
  "elementwise f a b = map2 (\<lambda>ra rb. map2 f ra rb) a b"

definition hsv_mask :: "(nat \<Rightarrow> nat \<Rightarrow> nat \<Rightarrow> bool) \<Rightarrow> rgb_image \<Rightarrow> bool_mask" where
  "hsv_mask pred hsv_image = map (map (\<lambda>(h, s, v). pred h s v)) hsv_image"

subsection \<open>The colour detectors\<close>

definition detect_gray_spots :: "opencv \<Rightarrow> rgb_image \<Rightarrow> py_exception + real" where
  "detect_gray_spots cv hsv_image =
     (let gray_mask = hsv_mask (\<lambda>h s v. s < 50 \<and> v \<ge> 50 \<and> v \<le> 150) hsv_image
      in Inr (mask_mean gray_mask))"

definition detect_black_mold :: "opencv \<Rightarrow> rgb_image \<Rightarrow> py_exception + real" where
  "detect_black_mold cv hsv_image =
     (let black_mask = hsv_mask (\<lambda>h s v. v < 40) hsv_image
      in Inr (mask_mean black_mask))"

definition detect_brown_discoloration :: "opencv \<Rightarrow> rgb_image \<Rightarrow> py_exception + real" where
  "detect_brown_discoloration cv hsv_image =
     (let brown_mask = hsv_mask (\<lambda>h s v. (h \<ge> 10 \<and> h \<le> 25) \<and> s > 30 \<and> v < 120) hsv_image
      in Inr (mask_mean brown_mask))"

definition detect_yellow_edges :: "opencv \<Rightarrow> rgb_image \<Rightarrow> py_exception + real" where
  "detect_yellow_edges cv hsv_image =
     (let yellow_mask = hsv_mask (\<lambda>h s v. (h \<ge> 20 \<and> h \<le> 35) \<and> s > 50 \<and> v > 100) hsv_image
      in and_then (cvt_HSV2GRAY cv hsv_image) (\<lambda>gray.
         and_then (Canny cv gray) (\<lambda>edges.
         and_then (dilate cv edges 5) (\<lambda>edge_regions.
           let overlap = elementwise (\<lambda>y e. y \<and> e > 0) yellow_mask edge_regions
           in Inr (mask_mean overlap)))))"

text \<open>The counting loop of \<open>_detect_holes\<close>.\<close>

definition hole_like :: "contour \<Rightarrow> bool" where
  "hole_like c =
     (contourArea c > 50 \<and> arcLength c > 0
      \<and> 4 * pi * contourArea c / (arcLength c * arcLength c) > 0.5)"

definition detect_holes :: "opencv \<Rightarrow> ndarray \<Rightarrow> py_exception + real" where
  "detect_holes cv arr =
     and_then (cvt_RGB2GRAY cv arr) (\<lambda>gray.
     and_then (dark_contours cv gray) (\<lambda>contours.
       let hole_count = length (filter hole_like contours)
       in Inr (min (real hole_count / 10.0) 1.0)))"

definition detect_white_fuzzy_spots :: "opencv \<Rightarrow> rgb_image \<Rightarrow> py_exception + real" where
  "detect_white_fuzzy_spots cv hsv_image =
     (let white_mask = hsv_mask (\<lambda>h s v. s < 30 \<and> v > 200) hsv_image
      in and_then (cvt_HSV2GRAY cv hsv_image) (\<lambda>gray.
         and_then (filter2D cv (as_float gray)) (\<lambda>mean.
         and_then (filter2D cv (map (map (\<lambda>x. x ^ 2)) (as_float gray))) (\<lambda>sqr_mean.
           let variance = elementwise (\<lambda>q m. q - m ^ 2) sqr_mean mean;
               fuzzy_white = elementwise (\<lambda>w x. w \<and> x > percentile cv (concat variance) 70)
                               white_mask variance
           in Inr (mask_mean fuzzy_white)))))"

definition detect_dark_spots :: "opencv \<Rightarrow> rgb_image \<Rightarrow> py_exception + real" where
  "detect_dark_spots cv hsv_image =
     (let dark_mask = hsv_mask (\<lambda>h s v. v < 60) hsv_image
      in Inr (mask_mean dark_mask))"

definition detect_deep_red :: "opencv \<Rightarrow> rgb_image \<Rightarrow> py_exception + real" where
  "detect_deep_red cv hsv_image =
     (let deep_red_mask = hsv_mask (\<lambda>h s v. (h \<le> 5 \<or> h \<ge> 175) \<and> s > 100 \<and> v < 150) hsv_image
      in Inr (mask_mean deep_red_mask))"

text \<open>
  \<open>_detect_black_bottom\<close>: \<open>v[int(2*height/3):, :]\<close> drops the first
  \<open>2 * height div 3\<close> rows.
\<close>

definition detect_black_bottom :: "opencv \<Rightarrow> rgb_image \<Rightarrow> py_exception + real" where
  "detect_black_bottom cv hsv_image =
     (let height = length hsv_image;
          bottom_region = drop (2 * height div 3) hsv_image;
          black_mask = hsv_mask (\<lambda>h s v. v < 40) bottom_region
      in Inr (mask_mean black_mask))"

definition detect_white_mold :: "opencv \<Rightarrow> rgb_image \<Rightarrow> py_exception + real" where
  "detect_white_mold cv hsv_image = detect_white_fuzzy_spots cv hsv_image"

definition detect_green_shoots :: "opencv \<Rightarrow> rgb_image \<Rightarrow> py_exception + real" where
  "detect_green_shoots cv hsv_image =
     (let green_mask = hsv_mask (\<lambda>h s v. (h \<ge> 40 \<and> h \<le> 80) \<and> s > 50 \<and> v > 50) hsv_image
      in Inr (mask_mean green_mask))"

text \<open>\<open>_detect_blue_discoloration\<close> reads the third channel of the LAB image.\<close>

definition detect_blue_discoloration :: "opencv \<Rightarrow> rgb_image \<Rightarrow> py_exception + real" where
  "detect_blue_discoloration cv lab_image =
     (let blue_mask = hsv_mask (\<lambda>l a b_channel. b_channel < 120) lab_image
      in Inr (mask_mean blue_mask))"

text \<open>
  \<open>_detect_brown_streaks\<close>: \<open>vertical_lines | horizontal_lines\<close> is the bitwise or
  of two 8-bit arrays, and \<open>np.mean\<close> averages its entries.
\<close>

definition detect_brown_streaks :: "opencv \<Rightarrow> rgb_image \<Rightarrow> py_exception + real" where
  "detect_brown_streaks cv hsv_image =
     (let brown_mask = hsv_mask (\<lambda>h s v. (h \<ge> 10 \<and> h \<le> 25) \<and> s > 30 \<and> v < 120) hsv_image
      in and_then (morphologyEx cv (as_uint8 brown_mask) ''MORPH_OPEN'' (1, 7)) (\<lambda>vertical_lines.
         and_then (morphologyEx cv (as_uint8 brown_mask) ''MORPH_OPEN'' (7, 1)) (\<lambda>horizontal_lines.
           let streaks = elementwise (\<lambda>a b. a OR b) vertical_lines horizontal_lines
           in Inr (np_mean (as_float streaks)))))"

subsection \<open>The texture detectors\<close>

definition detect_fuzzy_growth :: "opencv \<Rightarrow> gray_image \<Rightarrow> py_exception + real" where
  "detect_fuzzy_growth cv gray =
     and_then (Laplacian cv gray) (\<lambda>laplacian.
       let variance = np_var laplacian
       in Inr (min (variance / 1000.0) 1.0))"

definition gradient_magnitude :: "float_array \<Rightarrow> float_array \<Rightarrow> float_array" where
  "gradient_magnitude sobel_x sobel_y = elementwise (\<lambda>x y. sqrt (x ^ 2 + y ^ 2)) sobel_x sobel_y"

definition detect_irregular_surface :: "opencv \<Rightarrow> gray_image \<Rightarrow> py_exception + real" where
  "detect_irregular_surface cv gray =
     and_then (Sobel cv gray 1 0) (\<lambda>sobel_x.
     and_then (Sobel cv gray 0 1) (\<lambda>sobel_y.
       let magnitude = gradient_magnitude sobel_x sobel_y;
           irregularity = (if np_mean magnitude > 0 then np_std magnitude / np_mean magnitude
                           else 0)
       in Inr (min (irregularity / 2.0) 1.0)))"

definition detect_soft_kernels :: "opencv \<Rightarrow> gray_image \<Rightarrow> py_exception + real" where
  "detect_soft_kernels cv gray =
     and_then (Canny cv gray) (\<lambda>edges.
       let edge_density = real (length (filter (\<lambda>e. e > 0) (concat edges)))
                            / real (length (concat edges))
       in Inr (max 0 (1.0 - edge_density * 10)))"

definition detect_liquid_discharge :: "opencv \<Rightarrow> rgb_image \<Rightarrow> py_exception + real" where
  "detect_liquid_discharge cv img =
     and_then (cvt_RGB2HSV cv img) (\<lambda>hsv.
       let liquid_mask = hsv_mask (\<lambda>h s v. s > 100 \<and> v > 200) hsv
       in Inr (mask_mean liquid_mask))"

definition very_irregular :: "contour \<Rightarrow> bool" where
  "very_irregular c =
     (contourArea c > 50 \<and> arcLength c > 0
      \<and> 4 * pi * contourArea c / (arcLength c * arcLength c) < 0.3)"

definition detect_irregular_holes :: "opencv \<Rightarrow> gray_image \<Rightarrow> py_exception + real" where
  "detect_irregular_holes cv gray =
     and_then (detect_holes cv (Gray gray)) (\<lambda>holes_score.
     and_then (dark_contours cv gray) (\<lambda>contours.
       let irregular_count = length (filter very_irregular contours);
           irregularity = min (real irregular_count / 5.0) 1.0
       in Inr (holes_score * irregularity)))"

definition detect_soft_spots :: "opencv \<Rightarrow> gray_image \<Rightarrow> py_exception + real" where
  "detect_soft_spots cv gray =
     and_then (GaussianBlur cv gray) (\<lambda>blur.
       let difference = elementwise (\<lambda>g b. \<bar>g - b\<bar>) (as_float gray) (as_float blur);
           soft_mask = map (map (\<lambda>d. d < percentile cv (concat difference) 20)) difference
       in Inr (mask_mean soft_mask))"

definition detect_wrinkled_surface :: "opencv \<Rightarrow> gray_image \<Rightarrow> py_exception + real" where
  "detect_wrinkled_surface cv gray =
     and_then (Sobel cv gray 1 0) (\<lambda>sobel_x.
     and_then (Sobel cv gray 0 1) (\<lambda>sobel_y.
       let magnitude = gradient_magnitude sobel_x sobel_y;
           wrinkle_score = mask_mean (map (map (\<lambda>m. m > percentile cv (concat magnitude) 80))
                                        magnitude)
       in Inr wrinkle_score))"

definition detect_sunken_area :: "opencv \<Rightarrow> gray_image \<Rightarrow> py_exception + real" where
  "detect_sunken_area cv gray =
     (let mean_brightness = np_mean (as_float gray);
          sunken_mask = map (map (\<lambda>g. real g < mean_brightness * 0.7)) gray
      in and_then (morphologyEx cv (as_uint8 sunken_mask) ''MORPH_CLOSE'' (5, 5)) (\<lambda>closed.
           Inr (np_mean (as_float closed))))"

definition detect_protruding_growth :: "opencv \<Rightarrow> gray_image \<Rightarrow> py_exception + real" where
  "detect_protruding_growth cv gray =
     and_then (Canny cv gray) (\<lambda>edges.
       let bright_mask = map (map (\<lambda>g. real g > percentile cv (concat (as_float gray)) 80)) gray
       in and_then (dilate cv edges 3) (\<lambda>edge_regions.
            let protrusion_mask = elementwise (\<lambda>b e. b \<and> e > 0) bright_mask edge_regions
            in Inr (mask_mean protrusion_mask)))"

definition detect_fiber_separation :: "opencv \<Rightarrow> gray_image \<Rightarrow> py_exception + real" where
  "detect_fiber_separation cv gray =
     and_then (morphologyEx cv gray ''MORPH_OPEN'' (1, 9)) (\<lambda>vertical_lines.
     and_then (morphologyEx cv gray ''MORPH_OPEN'' (9, 1)) (\<lambda>horizontal_lines.
       let lines = elementwise (\<lambda>a b. a OR b) vertical_lines horizontal_lines
       in Inr (mask_mean (map (map (\<lambda>x. x > 0)) lines))))"

text \<open>The counting loop of \<open>_detect_tunnel_patterns\<close>.\<close>

definition tunnel_like :: "contour \<Rightarrow> bool" where
  "tunnel_like c =
     (contourArea c > 100 \<and>
      (case minAreaRect_size c of (width, height) \<Rightarrow>
         width > 0 \<and> height > 0 \<and> max (width / height) (height / width) > 3))"

definition detect_tunnel_patterns :: "opencv \<Rightarrow> gray_image \<Rightarrow> py_exception + real" where
  "detect_tunnel_patterns cv gray =
     and_then (dark_contours cv gray) (\<lambda>contours.
       let tunnel_score = length (filter tunnel_like contours)
       in Inr (min (real tunnel_score / 5.0) 1.0))"

subsection \<open>Scoring the catalogue\<close>

text \<open>\<open>pattern_score += <detector result> * weight\<close>, the detector possibly raising.\<close>

definition add_weighted :: "real \<Rightarrow> py_exception + real \<Rightarrow> real \<Rightarrow> py_exception + real" where
  "add_weighted pattern_score r w =
     (case r of Inl e \<Rightarrow> Inl e | Inr x \<Rightarrow> Inr (pattern_score + x * w))"

text \<open>One iteration of the loop of \<open>_analyze_color_patterns\<close>: the \<open>if/elif\<close> chain.\<close>

definition color_pattern_step ::
  "opencv \<Rightarrow> rgb_image \<Rightarrow> rgb_image \<Rightarrow> rgb_image \<Rightarrow> string \<Rightarrow> real \<Rightarrow> py_exception + real" where
  "color_pattern_step cv img hsv_image lab_image pattern pattern_score =
     (if pattern = ''gray_spots'' then
        add_weighted pattern_score (detect_gray_spots cv hsv_image) 0.3
      else if pattern = ''black_mold'' then
        add_weighted pattern_score (detect_black_mold cv hsv_image) 0.4
      else if pattern = ''brown_discoloration'' then
        add_weighted pattern_score (detect_brown_discoloration cv hsv_image) 0.3
      else if pattern = ''yellow_edges'' then
        add_weighted pattern_score (detect_yellow_edges cv hsv_image) 0.2
      else if pattern = ''holes'' then
        add_weighted pattern_score (detect_holes cv (Color img)) 0.5
      else if pattern = ''white_fuzzy_spots'' then
        add_weighted pattern_score (detect_white_fuzzy_spots cv hsv_image) 0.4
      else if pattern = ''dark_spots'' then
        add_weighted pattern_score (detect_dark_spots cv hsv_image) 0.3
      else if pattern = ''deep_red'' then
        add_weighted pattern_score (detect_deep_red cv hsv_image) 0.2
      else if pattern = ''black_bottom'' then
        add_weighted pattern_score (detect_black_bottom cv hsv_image) 0.5
      else if pattern = ''white_mold'' then
        add_weighted pattern_score (detect_white_mold cv hsv_image) 0.4
      else if pattern = ''green_shoots'' then
        add_weighted pattern_score (detect_green_shoots cv hsv_image) 0.6
      else if pattern = ''blue_discoloration'' then
        add_weighted pattern_score (detect_blue_discoloration cv lab_image) 0.4
      else if pattern = ''brown_streaks'' then
        add_weighted pattern_score (detect_brown_streaks cv hsv_image) 0.3
      else Inr pattern_score)"

fun color_pattern_loop ::
  "opencv \<Rightarrow> rgb_image \<Rightarrow> rgb_image \<Rightarrow> rgb_image \<Rightarrow> string list \<Rightarrow> real \<Rightarrow> py_exception + real" where
  "color_pattern_loop cv img hsv_image lab_image [] pattern_score = Inr pattern_score"
| "color_pattern_loop cv img hsv_image lab_image (pattern # rest) pattern_score =
     (case color_pattern_step cv img hsv_image lab_image pattern pattern_score of
        Inl e \<Rightarrow> Inl e
      | Inr s \<Rightarrow> color_pattern_loop cv img hsv_image lab_image rest s)"

definition analyze_color_patterns :: "opencv \<Rightarrow> rgb_image \<Rightarrow> string list \<Rightarrow> py_exception + real" where
  "analyze_color_patterns cv img patterns =
     (case cvt_RGB2HSV cv img of
        Inl e \<Rightarrow> Inl e
      | Inr hsv_image \<Rightarrow>
     (case cvt_RGB2LAB cv img of
        Inl e \<Rightarrow> Inl e
      | Inr lab_image \<Rightarrow>
     (case color_pattern_loop cv img hsv_image lab_image patterns 0.0 of
        Inl e \<Rightarrow> Inl e
      | Inr pattern_score \<Rightarrow> Inr (min pattern_score 1.0))))"

text \<open>One iteration of the loop of \<open>_analyze_texture_patterns\<close>.\<close>

definition texture_pattern_step ::
  "opencv \<Rightarrow> rgb_image \<Rightarrow> gray_image \<Rightarrow> string \<Rightarrow> real \<Rightarrow> py_exception + real" where
  "texture_pattern_step cv img gray pattern pattern_score =
     (if pattern = ''fuzzy_growth'' then
        add_weighted pattern_score (detect_fuzzy_growth cv gray) 0.4
      else if pattern = ''irregular_surface'' then
        add_weighted pattern_score (detect_irregular_surface cv gray) 0.2
      else if pattern = ''soft_kernels'' then
        add_weighted pattern_score (detect_soft_kernels cv gray) 0.3
      else if pattern = ''liquid_discharge'' then
        add_weighted pattern_score (detect_liquid_discharge cv img) 0.5
      else if pattern = ''irregular_holes'' then
        add_weighted pattern_score (detect_irregular_holes cv gray) 0.4
      else if pattern = ''soft_spots'' then
        add_weighted pattern_score (detect_soft_spots cv gray) 0.3
      else if pattern = ''wrinkled_surface'' then
        add_weighted pattern_score (detect_wrinkled_surface cv gray) 0.3
      else if pattern = ''sunken_area'' then
        add_weighted pattern_score (detect_sunken_area cv gray) 0.4
      else if pattern = ''protruding_growth'' then
        add_weighted pattern_score (detect_protruding_growth cv gray) 0.5
      else if pattern = ''fiber_separation'' then
        add_weighted pattern_score (detect_fiber_separation cv gray) 0.3
      else if pattern = ''tunnel_patterns'' then
        add_weighted pattern_score (detect_tunnel_patterns cv gray) 0.4
      else Inr pattern_score)"

fun texture_pattern_loop ::
  "opencv \<Rightarrow> rgb_image \<Rightarrow> gray_image \<Rightarrow> string list \<Rightarrow> real \<Rightarrow> py_exception + real" where
  "texture_pattern_loop cv img gray [] pattern_score = Inr pattern_score"
| "texture_pattern_loop cv img gray (pattern # rest) pattern_score =
     (case texture_pattern_step cv img gray pattern pattern_score of
        Inl e \<Rightarrow> Inl e
      | Inr s \<Rightarrow> texture_pattern_loop cv img gray rest s)"

definition analyze_texture_patterns :: "opencv \<Rightarrow> rgb_image \<Rightarrow> string list \<Rightarrow> py_exception + real" where
  "analyze_texture_patterns cv img patterns =
     (case cvt_RGB2GRAY cv (Color img) of
        Inl e \<Rightarrow> Inl e
      | Inr gray \<Rightarrow>
     (case texture_pattern_loop cv img gray patterns 0.0 of
        Inl e \<Rightarrow> Inl e
      | Inr pattern_score \<Rightarrow> Inr (min pattern_score 1.0)))"

definition analyze_disease_pattern ::
  "opencv \<Rightarrow> rgb_image \<Rightarrow> disease_entry \<Rightarrow> string \<Rightarrow> py_exception + real" where
  "analyze_disease_pattern cv img patterns crop_type =
     (case analyze_color_patterns cv img (color_patterns patterns) of
        Inl e \<Rightarrow> Inl e
      | Inr color_score \<Rightarrow>
     (case analyze_texture_patterns cv img (texture_patterns patterns) of
        Inl e \<Rightarrow> Inl e
      | Inr texture_score \<Rightarrow> Inr (0.6 * color_score + 0.4 * texture_score)))"

text \<open>\<open>_determine_severity\<close>: only the score decides.\<close>

definition determine_severity :: "rgb_image \<Rightarrow> string \<Rightarrow> string \<Rightarrow> real \<Rightarrow> string" where
  "determine_severity img disease_type crop_type confidence_score =
     (if confidence_score < 0.3 then ''mild''
      else if confidence_score < 0.6 then ''moderate''
      else if confidence_score < 0.8 then ''severe''
      else ''critical'')"

text \<open>\<open>_get_disease_description\<close>: the f-strings are concatenations.\<close>

definition descriptions :: "opencv \<Rightarrow> string \<Rightarrow> (string \<times> string) list" where
  "descriptions cv crop_type =
     [(''fungal_infection'',
         ''Fungal infection detected on '' @ crop_type
           @ ''. Characterized by mold growth and discoloration.''),
      (''bacterial_rot'',
         ''Bacterial rot affecting '' @ crop_type @ ''. Shows soft spots and discoloration.''),
      (''pest_damage'',
         ''Pest damage visible on '' @ crop_type @ ''. Shows holes and chewed areas.''),
      (''overripeness'',
         str_title cv crop_type
           @ '' is overripe. Shows color changes and texture deterioration.''),
      (''blossom_end_rot'',
         ''Blossom end rot in tomato. Dark spot at blossom end due to calcium deficiency.''),
      (''storage_rot'',
         ''Storage rot in '' @ crop_type
           @ ''. Deterioration due to improper storage conditions.''),
      (''sprouting'',
         ''Sprouting detected in '' @ crop_type @ ''. New growth indicating storage issues.''),
      (''storage_deterioration'',
         ''Storage deterioration in '' @ crop_type
           @ ''. Quality loss due to storage conditions.'')]"

definition get_disease_description :: "opencv \<Rightarrow> string \<Rightarrow> string \<Rightarrow> string" where
  "get_disease_description cv disease_type crop_type =
     (case map_of (descriptions cv crop_type) disease_type of
        Some d \<Rightarrow> d
      | None \<Rightarrow> ''Unspecified spoilage detected in '' @ crop_type @ ''.'')"

text \<open>
  The loop filling \<open>disease_scores\<close>, in catalogue order; the disease names of a crop
  are distinct, so the dictionary is the list of the pairs written.
\<close>

fun score_diseases ::
  "opencv \<Rightarrow> rgb_image \<Rightarrow> string \<Rightarrow> (string \<times> disease_entry) list
     \<Rightarrow> py_exception + (string \<times> real) list" where
  "score_diseases cv img crop_type [] = Inr []"
| "score_diseases cv img crop_type ((disease_name, patterns) # rest) =
     (case analyze_disease_pattern cv img patterns crop_type of
        Inl e \<Rightarrow> Inl e
      | Inr score \<Rightarrow>
     (case score_diseases cv img crop_type rest of
        Inl e \<Rightarrow> Inl e
      | Inr scores \<Rightarrow> Inr ((disease_name, score) # scores)))"

text \<open>
  \<open>max(disease_scores, key=disease_scores.get)\<close>: Python keeps the first key and
  replaces it only by a key of strictly greater score; on an empty dictionary it raises.
\<close>

fun max_from :: "(string \<times> real) \<Rightarrow> (string \<times> real) list \<Rightarrow> (string \<times> real)" where
  "max_from best [] = best"
| "max_from best (kv # rest) = max_from (if snd best < snd kv then kv else best) rest"

definition py_max_key :: "(string \<times> real) list \<Rightarrow> py_exception + (string \<times> real)" where
  "py_max_key scores = (case scores of [] \<Rightarrow> Inl ValueError | kv # rest \<Rightarrow> Inr (max_from kv rest))"

text \<open>The dictionaries \<open>detect_disease\<close> returns: keys in the order written.\<close>

datatype py_value = Str string | Float real | Scores "(string \<times> real) list"

type_synonym py_dict = "(string \<times> py_value) list"

definition detect_disease :: "opencv \<Rightarrow> rgb_image \<Rightarrow> string \<Rightarrow> py_exception + py_dict" where
  "detect_disease cv img crop_type =
     (case map_of disease_patterns crop_type of
        None \<Rightarrow>
          Inr [(''disease_type'', Str ''unknown_spoilage''),
               (''confidence'', Float 0.5),
               (''severity'', Str ''moderate''),
               (''description'',
                  Str ''Spoilage detected but specific type could not be determined'')]
      | Some crop_diseases \<Rightarrow>
     (case score_diseases cv img crop_type crop_diseases of
        Inl e \<Rightarrow> Inl e
      | Inr disease_scores \<Rightarrow>
     (case py_max_key disease_scores of
        Inl e \<Rightarrow> Inl e
      | Inr (most_likely_disease, max_score) \<Rightarrow>
          Inr [(''disease_type'', Str most_likely_disease),
               (''confidence'', Float (min max_score 0.95)),
               (''severity'',
                  Str (determine_severity img most_likely_disease crop_type max_score)),
               (''description'',
                  Str (get_disease_description cv most_likely_disease crop_type)),
               (''all_scores'', Scores disease_scores)])))"

section \<open>Species Classifier (models/crop\_classifier.py)\<close>

text \<open>
  The classifier works on a float array of height x width x 3. Its channel samples are
  reals here, and a pixel of the converted image is the triple (hue, saturation, value).
\<close>

type_synonym float_image = "(real \<times> real \<times> real) list list"

text \<open>
  \<open>_rgb_to_hsv\<close>, pixel by pixel. The hue array is \<open>np.zeros_like(max_val)\<close>; the
  mask \<open>diff != 0\<close> that the source computes next is never used, and nothing is ever
  stored into the hue array. \<open>np.where(max_val != 0, diff / max_val, 0)\<close> selects the
  quotient only where the maximum is not zero.
\<close>

definition rgb_to_hsv_pixel :: "real \<times> real \<times> real \<Rightarrow> real \<times> real \<times> real" where
  "rgb_to_hsv_pixel px =
     (case px of (r0, g0, b0) \<Rightarrow>
        let r = r0 / 255.0; g = g0 / 255.0; b = b0 / 255.0;
            max_val = max (max r g) b;
            min_val = min (min r g) b;
            diff = max_val - min_val;
            hue = 0;
            saturation = (if max_val \<noteq> 0 then diff / max_val else 0)
        in (hue, saturation, max_val))"

definition rgb_to_hsv :: "float_image \<Rightarrow> float_image" where
  "rgb_to_hsv img = map (map rgb_to_hsv_pixel) img"

definition pixel_mask :: "(real \<times> real \<times> real \<Rightarrow> bool) \<Rightarrow> float_image \<Rightarrow> bool list list" where
  "pixel_mask pred hsv_image = map (map pred) hsv_image"

record color_features =
  dominant_yellow :: real
  dominant_red :: real
  dominant_brown :: real
  dominant_white :: real

definition extract_color_features :: "float_image \<Rightarrow> color_features" where
  "extract_color_features hsv_image =
     (let yellow_mask = pixel_mask (\<lambda>(h, s, v). (h \<ge> 0.08 \<and> h \<le> 0.17) \<and> s > 0.3 \<and> v > 0.3) hsv_image;
          red_mask = pixel_mask (\<lambda>(h, s, v). (h \<le> 0.05 \<or> h \<ge> 0.95) \<and> s > 0.3 \<and> v > 0.3) hsv_image;
          brown_mask = pixel_mask (\<lambda>(h, s, v). (h \<ge> 0.05 \<and> h \<le> 0.15) \<and> s > 0.2 \<and> v < 0.6) hsv_image;
          white_mask = pixel_mask (\<lambda>(h, s, v). s < 0.2 \<and> v > 0.7) hsv_image
      in \<lparr>dominant_yellow = mask_mean yellow_mask,
          dominant_red = mask_mean red_mask,
          dominant_brown = mask_mean brown_mask,
          dominant_white = mask_mean white_mask\<rparr>)"

text \<open>
  The texture features and the edge statistic of the shape features are NumPy array
  statistics (\<open>np.percentile\<close>, \<open>np.std\<close>, \<open>np.mean\<close>) whose floats may
  also be NaN or infinite, which fail every threshold test as a small number does; the
  base scores come from the Keras model. They are the library side of the classifier:
  \<^item> \<open>model_predict\<close>: \<open>self.model.predict(image)[0]\<close>;
  \<^item> \<open>texture_statistics\<close>: the four statistics of \<open>_extract_texture_features\<close>,
    computed once the edge array exists and is not empty;
  \<^item> \<open>edge_complexity\<close>: \<open>np.std(edges) / (np.mean(edges) + 1e-6)\<close> of
    \<open>_extract_shape_features\<close>.
\<close>

record texture_features =
  grid_pattern :: real
  smooth :: real
  rough :: real
  fibrous :: real

record shape_features =
  elongated :: real
  round_f :: real
  irregular :: real
  cylindrical :: real

record numpy_env =
  model_predict :: "float_image \<Rightarrow> py_exception + real list"
  texture_statistics :: "float_image \<Rightarrow> texture_features"
  edge_complexity :: "float_image \<Rightarrow> real"

definition image_height :: "float_image \<Rightarrow> nat" where
  "image_height img = length img"

definition image_width :: "float_image \<Rightarrow> nat" where
  "image_width img = (case img of [] \<Rightarrow> 0 | row # rest \<Rightarrow> length row)"

text \<open>
  Both feature methods build
  \<open>edges = np.abs(np.diff(gray, axis=0)) + np.abs(np.diff(gray, axis=1, prepend=0))\<close>.
  For a grey image of \<open>h\<close> rows the first summand has \<open>h - 1\<close> rows (none when
  \<open>h = 0\<close>) and the second \<open>h\<close> rows, both of the image's width. NumPy adds two
  arrays only when their row counts are equal or one of them is 1, and raises a
  \<open>ValueError\<close> otherwise; \<open>broadcast_rows\<close> is the row count of the sum.
\<close>

definition broadcast_rows :: "nat \<Rightarrow> nat \<Rightarrow> py_exception + nat" where
  "broadcast_rows m n =
     (if m = n \<or> n = 1 then Inr m else if m = 1 then Inr n else Inl ValueError)"

definition edges_rows :: "float_image \<Rightarrow> py_exception + nat" where
  "edges_rows img = broadcast_rows (image_height img - 1) (image_height img)"

text \<open>
  \<open>_extract_texture_features\<close>: after the edge array, \<open>np.percentile(edges, 80)\<close>
  raises on an empty array (an \<open>IndexError\<close> or a \<open>ValueError\<close>, by the version
  of NumPy). So the method returns only for images of exactly two rows and at least one
  column.
\<close>

definition extract_texture_features :: "numpy_env \<Rightarrow> float_image \<Rightarrow> py_exception + texture_features" where
  "extract_texture_features N img =
     (case edges_rows img of
        Inl e \<Rightarrow> Inl e
      | Inr rows \<Rightarrow>
          if rows * image_width img = 0 then Inl IndexError
          else Inr (texture_statistics N img))"

text \<open>
  \<open>_extract_shape_features\<close>. \<open>height, width = gray.shape\<close>; \<open>width / height\<close>
  raises when the height is zero, and \<open>1/aspect_ratio\<close> raises when the width is zero
  (the ratio \<open>0.0\<close> is below \<open>0.67\<close>, so the quotient is evaluated). The edge
  array comes after the roundness and before the cylindricality.
\<close>

definition extract_shape_features :: "numpy_env \<Rightarrow> float_image \<Rightarrow> py_exception + shape_features" where
  "extract_shape_features N img =
     (if image_height img = 0 then Inl ZeroDivisionError
      else
        let aspect_ratio = real (image_width img) / real (image_height img) in
        if (aspect_ratio > 1.5 \<or> aspect_ratio < 0.67) \<and> aspect_ratio = 0 then Inl ZeroDivisionError
        else
          (case edges_rows img of
             Inl e \<Rightarrow> Inl e
           | Inr rows \<Rightarrow>
               Inr \<lparr>elongated =
                      (if aspect_ratio > 1.5 \<or> aspect_ratio < 0.67
                       then min aspect_ratio (1 / aspect_ratio) else 0),
                    round_f = 1.0 - \<bar>aspect_ratio - 1.0\<bar>,
                    irregular = min (edge_complexity N img / 2.0) 1.0,
                    cylindrical = (if aspect_ratio > 2.0 then aspect_ratio / 3.0 else 0)\<rparr>))"

text \<open>
  The four heuristic scores, each built by the source's sequence of \<open>+=\<close>.
\<close>

definition corn_score :: "color_features \<Rightarrow> texture_features \<Rightarrow> shape_features \<Rightarrow> real" where
  "corn_score cf tf sf =
     (if dominant_yellow cf > 0.3 then 0.4 else 0)
     + (if grid_pattern tf > 0.5 then 0.3 else 0)
     + (if elongated sf > 0.6 then 0.3 else 0)"

definition tomato_score :: "color_features \<Rightarrow> texture_features \<Rightarrow> shape_features \<Rightarrow> real" where
  "tomato_score cf tf sf =
     (if dominant_red cf > 0.4 then 0.5 else 0)
     + (if round_f sf > 0.7 then 0.3 else 0)
     + (if smooth tf > 0.6 then 0.2 else 0)"

definition yam_score :: "color_features \<Rightarrow> texture_features \<Rightarrow> shape_features \<Rightarrow> real" where
  "yam_score cf tf sf =
     (if dominant_brown cf > 0.3 then 0.4 else 0)
     + (if rough tf > 0.5 then 0.3 else 0)
     + (if irregular sf > 0.6 then 0.3 else 0)"

definition cassava_score :: "color_features \<Rightarrow> texture_features \<Rightarrow> shape_features \<Rightarrow> real" where
  "cassava_score cf tf sf =
     (if dominant_white cf > 0.3 then 0.4 else 0)
     + (if cylindrical sf > 0.5 then 0.3 else 0)
     + (if fibrous tf > 0.4 then 0.3 else 0)"

text \<open>
  \<open>0.7 * scores + 0.3 * heuristic_scores\<close> on one-dimensional arrays: elementwise for
  four base scores, a single base score is broadcast, any other length raises.
\<close>

definition fuse :: "real list \<Rightarrow> real list \<Rightarrow> py_exception + real list" where
  "fuse scores heuristic_scores =
     (if length scores = length heuristic_scores
      then Inr (map2 (\<lambda>s h. 0.7 * s + 0.3 * h) scores heuristic_scores)
      else (case scores of
              [s] \<Rightarrow> Inr (map (\<lambda>h. 0.7 * s + 0.3 * h) heuristic_scores)
            | _ \<Rightarrow> Inl ValueError))"

text \<open>
  \<open>np.exp(final_scores) / np.sum(np.exp(final_scores))\<close> runs on IEEE doubles, and
  here their range matters: a result above the largest double is \<open>inf\<close>, a positive
  result below half the smallest positive double is 0, \<open>inf / inf\<close> and \<open>0 / 0\<close>
  are NaN, and NumPy returns these values without raising. A double of this computation
  is a non-negative real, \<open>inf\<close> or NaN; rounding inside the range is not modelled.
\<close>

datatype np_float = Finite real | PosInf | NaN

definition float_max :: real where
  "float_max = (2 ^ 53 - 1) * 2 ^ 971"

definition float_tiny :: real where
  "float_tiny = 1 / 2 ^ 1075"

definition np_round :: "real \<Rightarrow> np_float" where
  "np_round x = (if x > float_max then PosInf else if x < float_tiny then Finite 0 else Finite x)"

definition np_exp :: "real \<Rightarrow> np_float" where
  "np_exp x = np_round (exp x)"

fun np_add :: "np_float \<Rightarrow> np_float \<Rightarrow> np_float" where
  "np_add (Finite a) (Finite b) = np_round (a + b)"
| "np_add NaN y = NaN"
| "np_add x NaN = NaN"
| "np_add PosInf y = PosInf"
| "np_add x PosInf = PosInf"

definition np_sum :: "np_float list \<Rightarrow> np_float" where
  "np_sum xs = foldl np_add (Finite 0) xs"

fun np_divide :: "np_float \<Rightarrow> np_float \<Rightarrow> np_float" where
  "np_divide (Finite a) (Finite b) =
     (if b = 0 then (if a = 0 then NaN else PosInf) else np_round (a / b))"
| "np_divide NaN y = NaN"
| "np_divide x NaN = NaN"
| "np_divide PosInf PosInf = NaN"
| "np_divide PosInf (Finite b) = PosInf"
| "np_divide (Finite a) PosInf = Finite 0"

definition softmax :: "real list \<Rightarrow> np_float list" where
  "softmax final_scores =
     (let exps = map np_exp final_scores; total = np_sum exps
      in map (\<lambda>x. np_divide x total) exps)"

text \<open>
  The softmax of the specification, \<open>p_i = exp(final_i) / sum_j exp(final_j)\<close>, over
  the reals.
\<close>

definition exact_softmax :: "real list \<Rightarrow> real list" where
  "exact_softmax final_scores =
     map (\<lambda>x. exp x / sum_list (map exp final_scores)) final_scores"

definition apply_crop_heuristics ::
  "numpy_env \<Rightarrow> float_image \<Rightarrow> real list \<Rightarrow> py_exception + np_float list" where
  "apply_crop_heuristics N img base_predictions =
     (let hsv_image = rgb_to_hsv img;
          cf = extract_color_features hsv_image
      in (case extract_texture_features N img of
            Inl e \<Rightarrow> Inl e
          | Inr tf \<Rightarrow>
         (case extract_shape_features N img of
            Inl e \<Rightarrow> Inl e
          | Inr sf \<Rightarrow>
         (case fuse base_predictions
                  [corn_score cf tf sf, yam_score cf tf sf, cassava_score cf tf sf,
                   tomato_score cf tf sf] of
            Inl e \<Rightarrow> Inl e
          | Inr final_scores \<Rightarrow> Inr (softmax final_scores)))))"

text \<open>
  \<open>predict\<close>: the result dictionary pairs \<open>crop_classes[i]\<close> with \<open>crop_scores[i]\<close>;
  indexing past the end of the scores raises.
\<close>

definition crop_classes :: "string list" where
  "crop_classes = [''corn'', ''yam'', ''cassava'', ''tomato'']"

definition predict :: "numpy_env \<Rightarrow> float_image \<Rightarrow> py_exception + (string \<times> np_float) list" where
  "predict N img =
     (case model_predict N img of
        Inl e \<Rightarrow> Inl e
      | Inr predictions \<Rightarrow>
     (case apply_crop_heuristics N img predictions of
        Inl e \<Rightarrow> Inl e
      | Inr crop_scores \<Rightarrow>
          if length crop_scores < length crop_classes then Inl IndexError
          else Inr (zip crop_classes crop_scores)))"

subsection \<open>A synthetic test image\<close>

text \<open>
  Two rows of eight pixels, every pixel pure yellow (255, 255, 0): the width is four times
  the height. The base scorer is uniform. NumPy's statistics on this image: the grey level
  is constant, the only edges are the first column (the \<open>prepend=0\<close> of \<open>np.diff\<close>),
  so \<open>grid_pattern = 2/16\<close>, \<open>smooth = 1\<close>, \<open>fibrous = 0\<close>, and both
  \<open>rough\<close> and the edge complexity are the square root of 7 (2.6458 to four places).
\<close>

definition yellow_image :: float_image where
  "yellow_image = replicate 2 (replicate 8 (255, 255, 0))"

definition uniform_base :: "real list" where
  "uniform_base = [0.25, 0.25, 0.25, 0.25]"

definition yellow_numpy :: numpy_env where
  "yellow_numpy =
     \<lparr>model_predict = (\<lambda>img. Inr uniform_base),
      texture_statistics =
        (\<lambda>img. \<lparr>grid_pattern = 0.125, smooth = 1, rough = 2.6458, fibrous = 0\<rparr>),
      edge_complexity = (\<lambda>img. 2.6458)\<rparr>"

section \<open>Concrete inputs\<close>

text \<open>
  Inputs at which the theorems below are evaluated: analyses that return fixed indicator
  values, analyses whose texture step raises, a one-pixel image, and a library side of the
  disease detector in which every call returns: the converted image is one dark brown
  pixel, the edge maps are full, no contour is found and the gradients vanish.
\<close>

definition fixed_analyses :: "real \<Rightarrow> real \<Rightarrow> real \<Rightarrow> real \<Rightarrow> quality_analyses" where
  "fixed_analyses c t sh su =
     \<lparr>analyze_color_degradation = (\<lambda>img crop_type. Inr c),
      analyze_texture_degradation = (\<lambda>img crop_type. Inr t),
      analyze_shape_degradation = (\<lambda>img crop_type. Inr sh),
      analyze_surface_condition = (\<lambda>img crop_type. Inr su)\<rparr>"

definition failing_analyses :: quality_analyses where
  "failing_analyses =
     \<lparr>analyze_color_degradation = (\<lambda>img crop_type. Inr 0.1),
      analyze_texture_degradation = (\<lambda>img crop_type. Inl CvError),
      analyze_shape_degradation = (\<lambda>img crop_type. Inr 0.1),
      analyze_surface_condition = (\<lambda>img crop_type. Inr 0.1)\<rparr>"

definition one_pixel :: rgb_image where
  "one_pixel = [[(200, 180, 40)]]"

definition sample_opencv :: opencv where
  "sample_opencv =
     \<lparr>cvt_RGB2HSV = (\<lambda>img. Inr [[(15, 100, 30)]]),
      cvt_RGB2LAB = (\<lambda>img. Inr [[(50, 130, 100)]]),
      cvt_RGB2GRAY = (\<lambda>arr. Inr [[80]]),
      cvt_HSV2GRAY = (\<lambda>hsv. Inr [[80]]),
      Canny = (\<lambda>gray. Inr [[255]]),
      dilate = (\<lambda>edges k. Inr [[255]]),
      dark_contours = (\<lambda>gray. Inr []),
      filter2D = (\<lambda>a. Inr a),
      morphologyEx = (\<lambda>a op kernel. Inr a),
      Laplacian = (\<lambda>gray. Inr [[0]]),
      Sobel = (\<lambda>gray dx dy. Inr [[0]]),
      GaussianBlur = (\<lambda>gray. Inr gray),
      percentile = (\<lambda>xs q. 0),
      str_title = (\<lambda>s. s)\<rparr>"

section \<open>Properties of the Quality Assessor\<close>

lemma crop_weights_cases:
  "crop_weights crop_type \<in> {corn_weights,
      \<lparr>color = 0.3, texture = 0.2, shape = 0.2, surface = 0.3\<rparr>,
      \<lparr>color = 0.4, texture = 0.2, shape = 0.1, surface = 0.3\<rparr>}"
  by (simp add: crop_weights_def weights_def)

lemma weights_sum_one:
  "color (crop_weights crop_type) + texture (crop_weights crop_type)
     + shape (crop_weights crop_type) + surface (crop_weights crop_type) = 1"
  using crop_weights_cases [of crop_type] by (auto simp: corn_weights_def)

lemma weights_nonneg:
  "0 \<le> color (crop_weights crop_type)" "0 \<le> texture (crop_weights crop_type)"
  "0 \<le> shape (crop_weights crop_type)" "0 \<le> surface (crop_weights crop_type)"
  using crop_weights_cases [of crop_type] by (auto simp: corn_weights_def)

lemma weighted_sum_bounds:
  assumes "0 \<le> c" "c \<le> 1" "0 \<le> t" "t \<le> 1" "0 \<le> sh" "sh \<le> 1" "0 \<le> su" "su \<le> 1"
  shows "0 \<le> weighted_sum c t sh su crop_type" "weighted_sum c t sh su crop_type \<le> 1"
proof -
  let ?w = "crop_weights crop_type"
  have n: "0 \<le> color ?w" "0 \<le> texture ?w" "0 \<le> shape ?w" "0 \<le> surface ?w"
    by (rule weights_nonneg)+
  show "0 \<le> weighted_sum c t sh su crop_type"
    unfolding weighted_sum_def using assms n by (intro add_nonneg_nonneg mult_nonneg_nonneg)
  have "c * color ?w \<le> 1 * color ?w" "t * texture ?w \<le> 1 * texture ?w"
       "sh * shape ?w \<le> 1 * shape ?w" "su * surface ?w \<le> 1 * surface ?w"
    using assms n by (intro mult_right_mono; simp)+
  then have "weighted_sum c t sh su crop_type \<le> color ?w + texture ?w + shape ?w + surface ?w"
    unfolding weighted_sum_def by simp
  then show "weighted_sum c t sh su crop_type \<le> 1"
    using weights_sum_one [of crop_type] by simp
qed

text \<open>
  Claim C9. For every crop string (an unknown crop takes corn's weights) the four component
  weights sum to exactly 1. Hence, for sub-scores in the unit interval, the weighted sum is
  a convex combination lying in the unit interval, and the final \<open>min(., 1.0)\<close> of
  \<open>_calculate_spoilage_score\<close> returns the weighted sum unchanged.
\<close>
theorem spoilage_weights_convex:
  "color (crop_weights crop_type) + texture (crop_weights crop_type)
     + shape (crop_weights crop_type) + surface (crop_weights crop_type) = 1
   \<and> (0 \<le> c \<and> c \<le> 1 \<and> 0 \<le> t \<and> t \<le> 1 \<and> 0 \<le> sh \<and> sh \<le> 1 \<and> 0 \<le> su \<and> su \<le> 1
        \<longrightarrow> 0 \<le> weighted_sum c t sh su crop_type
            \<and> weighted_sum c t sh su crop_type \<le> 1
            \<and> calculate_spoilage_score c t sh su crop_type = weighted_sum c t sh su crop_type)"
  using weights_sum_one [of crop_type] weighted_sum_bounds [of c t sh su crop_type]
  by (simp add: calculate_spoilage_score_def)

theorem spoilage_weights_convex_witness:
  "color (crop_weights ''yam'') + texture (crop_weights ''yam'')
     + shape (crop_weights ''yam'') + surface (crop_weights ''yam'') = 1
   \<and> calculate_spoilage_score 1 1 1 1 ''yam'' = 1
   \<and> weighted_sum 1 0.5 0 0.25 ''tomato'' = 0.475
   \<and> calculate_spoilage_score 1 0.5 0 0.25 ''tomato'' = 0.475"
  using spoilage_weights_convex [of "''yam''" 1 1 1 1]
        spoilage_weights_convex [of "''tomato''" 1 "0.5" 0 "0.25"]
  by (simp add: weighted_sum_def crop_weights_def weights_def)

lemma features_of_SomeD:
  assumes "features_of A image_arg crop_type = Some (c, t, sh, su)"
  shows "assess_quality A image_arg crop_type = decide c t sh su crop_type"
  using assms
  by (auto simp: features_of_def assess_quality_def split: option.splits if_splits sum.splits)

lemma features_of_NoneD:
  assumes "features_of A image_arg crop_type = None"
  shows "assess_quality A image_arg crop_type = get_default_result"
  using assms
  by (auto simp: features_of_def assess_quality_def split: option.splits if_splits sum.splits)

lemma decide_fields:
  "spoilage_score (decide c t sh su crop_type) = calculate_spoilage_score c t sh su crop_type"
  "status (decide c t sh su crop_type) =
     (if calculate_spoilage_score c t sh su crop_type < 0.3 then ''fresh'' else ''spoiled'')"
  "confidence (decide c t sh su crop_type) =
     (if calculate_spoilage_score c t sh su crop_type < 0.3
      then min (1 - calculate_spoilage_score c t sh su crop_type) 0.95
      else min (calculate_spoilage_score c t sh su crop_type) 0.95)"
  by (simp_all add: decide_def Let_def)

text \<open>
  Claim C1. Whenever the feature computation of \<open>assess_quality\<close> succeeds, the
  reported spoilage score is the fused score, the status is \<open>fresh\<close> exactly when that
  score is strictly below 0.3 and \<open>spoiled\<close> exactly when it is at least 0.3 (so a score
  of exactly 0.3 is spoiled), and the confidence is \<open>min(1 - score, 0.95)\<close> when fresh
  and \<open>min(score, 0.95)\<close> when spoiled.
\<close>
theorem assess_quality_decision:
  assumes "features_of A image_arg crop_type = Some (c, t, sh, su)"
  shows "spoilage_score (assess_quality A image_arg crop_type)
           = calculate_spoilage_score c t sh su crop_type
       \<and> (status (assess_quality A image_arg crop_type) = ''fresh''
            \<longleftrightarrow> spoilage_score (assess_quality A image_arg crop_type) < 0.3)
       \<and> (status (assess_quality A image_arg crop_type) = ''spoiled''
            \<longleftrightarrow> 0.3 \<le> spoilage_score (assess_quality A image_arg crop_type))
       \<and> (status (assess_quality A image_arg crop_type) = ''fresh''
            \<longrightarrow> confidence (assess_quality A image_arg crop_type)
                  = min (1 - spoilage_score (assess_quality A image_arg crop_type)) 0.95)
       \<and> (status (assess_quality A image_arg crop_type) = ''spoiled''
            \<longrightarrow> confidence (assess_quality A image_arg crop_type)
                  = min (spoilage_score (assess_quality A image_arg crop_type)) 0.95)"
  unfolding features_of_SomeD [OF assms] decide_fields by auto

theorem assess_quality_decision_witness:
  "features_of (fixed_analyses 0.3 0.3 0.3 0.3) (Some one_pixel) ''corn''
     = Some (0.3, 0.3, 0.3, 0.3)
   \<and> spoilage_score (assess_quality (fixed_analyses 0.3 0.3 0.3 0.3) (Some one_pixel) ''corn'') = 0.3
   \<and> status (assess_quality (fixed_analyses 0.3 0.3 0.3 0.3) (Some one_pixel) ''corn'') = ''spoiled''
   \<and> confidence (assess_quality (fixed_analyses 0.3 0.3 0.3 0.3) (Some one_pixel) ''corn'') = 0.3"
proof -
  have f: "features_of (fixed_analyses 0.3 0.3 0.3 0.3) (Some one_pixel) ''corn''
             = Some (0.3, 0.3, 0.3, 0.3)"
    by (simp add: features_of_def compute_features_def fixed_analyses_def one_pixel_def
          ndarray_size_def)
  have s: "calculate_spoilage_score 0.3 0.3 0.3 0.3 ''corn'' = 0.3"
    by (simp add: calculate_spoilage_score_def weighted_sum_def crop_weights_def weights_def
          corn_weights_def)
  show ?thesis
    using f assess_quality_decision [OF f] s by simp
qed



text \<open>
  Claim C10. In every result of \<open>assess_quality\<close>, status \<open>fresh\<close> implies a
  confidence strictly above 0.7, status \<open>spoiled\<close> implies a confidence of at least
  0.3, and status \<open>unknown\<close> implies a confidence of exactly 0.5; there is no other
  status.
\<close>
theorem status_confidence_link:
  "(status (assess_quality A image_arg crop_type) = ''fresh''
      \<longrightarrow> 0.7 < confidence (assess_quality A image_arg crop_type))
   \<and> (status (assess_quality A image_arg crop_type) = ''spoiled''
      \<longrightarrow> 0.3 \<le> confidence (assess_quality A image_arg crop_type))
   \<and> (status (assess_quality A image_arg crop_type) = ''unknown''
      \<longrightarrow> confidence (assess_quality A image_arg crop_type) = 0.5)
   \<and> status (assess_quality A image_arg crop_type) \<in> {''fresh'', ''spoiled'', ''unknown''}"
proof (cases "features_of A image_arg crop_type")
  case None
  then show ?thesis by (simp add: features_of_NoneD get_default_result_def)
next
  case (Some f)
  obtain c t sh su where "f = (c, t, sh, su)" by (cases f) auto
  with Some show ?thesis by (auto simp: features_of_SomeD decide_fields min_def)
qed

theorem status_confidence_link_witness:
  "status (assess_quality (fixed_analyses 0.1 0.2 0 0.3) (Some one_pixel) ''corn'') = ''fresh''
   \<and> 0.7 < confidence (assess_quality (fixed_analyses 0.1 0.2 0 0.3) (Some one_pixel) ''corn'')
   \<and> status (assess_quality (fixed_analyses 0.3 0.3 0.3 0.3) (Some one_pixel) ''corn'') = ''spoiled''
   \<and> 0.3 \<le> confidence (assess_quality (fixed_analyses 0.3 0.3 0.3 0.3) (Some one_pixel) ''corn'')
   \<and> status (assess_quality failing_analyses (Some one_pixel) ''corn'') = ''unknown''
   \<and> confidence (assess_quality failing_analyses (Some one_pixel) ''corn'') = 0.5"
proof -
  have a: "status (assess_quality (fixed_analyses 0.1 0.2 0 0.3) (Some one_pixel) ''corn'') = ''fresh''"
    by (simp add: assess_quality_def compute_features_def fixed_analyses_def one_pixel_def
          ndarray_size_def decide_def Let_def calculate_spoilage_score_def weighted_sum_def
          crop_weights_def weights_def corn_weights_def)
  have b: "status (assess_quality (fixed_analyses 0.3 0.3 0.3 0.3) (Some one_pixel) ''corn'') = ''spoiled''"
    by (simp add: assess_quality_def compute_features_def fixed_analyses_def one_pixel_def
          ndarray_size_def decide_def Let_def calculate_spoilage_score_def weighted_sum_def
          crop_weights_def weights_def corn_weights_def)
  have c: "status (assess_quality failing_analyses (Some one_pixel) ''corn'') = ''unknown''"
    by (simp add: assess_quality_def compute_features_def failing_analyses_def one_pixel_def
          ndarray_size_def get_default_result_def)
  show ?thesis
    using a b c
      status_confidence_link [of "fixed_analyses 0.1 0.2 0 0.3" "Some one_pixel" "''corn''"]
      status_confidence_link [of "fixed_analyses 0.3 0.3 0.3 0.3" "Some one_pixel" "''corn''"]
      status_confidence_link [of failing_analyses "Some one_pixel" "''corn''"]
    by simp
qed


section \<open>Properties of the Disease Detector\<close>

text \<open>
  Claim C3. The severity buckets partition the scores: a score is \<open>mild\<close> exactly
  below 0.3, \<open>moderate\<close> exactly in [0.3, 0.6), \<open>severe\<close> exactly in [0.6, 0.8)
  and \<open>critical\<close> exactly from 0.8 on; the four labels are distinct, so every score has
  exactly one, and each boundary value 0.3, 0.6, 0.8 belongs to the higher bucket.
\<close>
theorem severity_partition:
  "(determine_severity img disease_type crop_type s = ''mild'' \<longleftrightarrow> s < 0.3)
   \<and> (determine_severity img disease_type crop_type s = ''moderate'' \<longleftrightarrow> 0.3 \<le> s \<and> s < 0.6)
   \<and> (determine_severity img disease_type crop_type s = ''severe'' \<longleftrightarrow> 0.6 \<le> s \<and> s < 0.8)
   \<and> (determine_severity img disease_type crop_type s = ''critical'' \<longleftrightarrow> 0.8 \<le> s)
   \<and> determine_severity img disease_type crop_type s
        \<in> {''mild'', ''moderate'', ''severe'', ''critical''}
   \<and> determine_severity img disease_type crop_type 0.3 = ''moderate''
   \<and> determine_severity img disease_type crop_type 0.6 = ''severe''
   \<and> determine_severity img disease_type crop_type 0.8 = ''critical''"
  by (simp add: determine_severity_def)

lemma unknown_crop_iff:
  "map_of disease_patterns crop_type = None
     \<longleftrightarrow> crop_type \<notin> {''corn'', ''tomato'', ''yam'', ''cassava''}"
  by (simp add: disease_patterns_def)

text \<open>
  Claim C5, as the code has it. For every image and every species string outside the
  catalogue, \<open>detect_disease\<close> returns the dictionary of four entries: disease type
  \<open>unknown_spoilage\<close>, confidence 0.5, severity \<open>moderate\<close> and the fixed
  description; it has no \<open>all_scores\<close> entry.
\<close>
theorem unknown_species_result:
  assumes "crop_type \<notin> {''corn'', ''tomato'', ''yam'', ''cassava''}"
  shows "detect_disease cv img crop_type =
           Inr [(''disease_type'', Str ''unknown_spoilage''),
                (''confidence'', Float 0.5),
                (''severity'', Str ''moderate''),
                (''description'',
                   Str ''Spoilage detected but specific type could not be determined'')]"
  using assms unknown_crop_iff [of crop_type] by (simp add: detect_disease_def)

theorem unknown_species_result_witness:
  "''banana'' \<notin> {''corn'', ''tomato'', ''yam'', ''cassava''}
   \<and> detect_disease sample_opencv one_pixel ''banana'' =
           Inr [(''disease_type'', Str ''unknown_spoilage''),
                (''confidence'', Float 0.5),
                (''severity'', Str ''moderate''),
                (''description'',
                   Str ''Spoilage detected but specific type could not be determined'')]"
proof -
  have h: "''banana'' \<notin> {''corn'', ''tomato'', ''yam'', ''cassava''}" by simp
  show ?thesis using h unknown_species_result [OF h, of sample_opencv one_pixel] by simp
qed

text \<open>
  The result for the species \<open>banana\<close> is not the dictionary of the three entries
  disease type, confidence and severity alone: it has a fourth entry, the description.
\<close>

theorem unknown_species_three_fields_counterexample:
  "detect_disease sample_opencv one_pixel ''banana'' \<noteq>
      Inr [(''disease_type'', Str ''unknown_spoilage''),
           (''confidence'', Float 0.5),
           (''severity'', Str ''moderate'')]
   \<and> detect_disease sample_opencv one_pixel ''banana'' =
      Inr [(''disease_type'', Str ''unknown_spoilage''),
           (''confidence'', Float 0.5),
           (''severity'', Str ''moderate''),
           (''description'',
              Str ''Spoilage detected but specific type could not be determined'')]"
  by (simp add: detect_disease_def disease_patterns_def)

lemma and_then_InrD:
  assumes "and_then r f = Inr y"
  obtains x where "r = Inr x" "f x = Inr y"
  using assms by (cases r) (auto simp: and_then_def)

lemma mask_mean_nonneg: "0 \<le> mask_mean m"
  by (simp add: mask_mean_def)

lemma np_mean_nonneg:
  assumes "\<And>x. x \<in> set (concat a) \<Longrightarrow> 0 \<le> x"
  shows "0 \<le> np_mean a"
proof -
  have "0 \<le> sum_list (concat a)" using assms by (rule sum_list_nonneg)
  then show ?thesis unfolding np_mean_def by (rule divide_nonneg_nonneg) simp
qed

lemma np_mean_as_float_nonneg: "0 \<le> np_mean (as_float g)"
  by (rule np_mean_nonneg) (auto simp: as_float_def)

lemma np_var_nonneg: "0 \<le> np_var a"
  unfolding np_var_def by (rule np_mean_nonneg) auto

lemma np_std_nonneg: "0 \<le> np_std a"
  by (simp add: np_std_def np_var_nonneg)

lemma detect_gray_spots_nonneg: "detect_gray_spots cv a = Inr x \<Longrightarrow> 0 \<le> x"
  by (auto simp: detect_gray_spots_def Let_def mask_mean_nonneg)

lemma detect_black_mold_nonneg: "detect_black_mold cv a = Inr x \<Longrightarrow> 0 \<le> x"
  by (auto simp: detect_black_mold_def Let_def mask_mean_nonneg)

lemma detect_brown_discoloration_nonneg: "detect_brown_discoloration cv a = Inr x \<Longrightarrow> 0 \<le> x"
  by (auto simp: detect_brown_discoloration_def Let_def mask_mean_nonneg)

lemma detect_yellow_edges_nonneg: "detect_yellow_edges cv a = Inr x \<Longrightarrow> 0 \<le> x"
  unfolding detect_yellow_edges_def Let_def
  by (elim and_then_InrD) (auto simp: mask_mean_nonneg)

lemma detect_holes_nonneg: "detect_holes cv a = Inr x \<Longrightarrow> 0 \<le> x"
  unfolding detect_holes_def Let_def
  by (elim and_then_InrD) auto

lemma detect_white_fuzzy_spots_nonneg: "detect_white_fuzzy_spots cv a = Inr x \<Longrightarrow> 0 \<le> x"
  unfolding detect_white_fuzzy_spots_def Let_def
  by (elim and_then_InrD) (auto simp: mask_mean_nonneg)

lemma detect_dark_spots_nonneg: "detect_dark_spots cv a = Inr x \<Longrightarrow> 0 \<le> x"
  by (auto simp: detect_dark_spots_def Let_def mask_mean_nonneg)

lemma detect_deep_red_nonneg: "detect_deep_red cv a = Inr x \<Longrightarrow> 0 \<le> x"
  by (auto simp: detect_deep_red_def Let_def mask_mean_nonneg)

lemma detect_black_bottom_nonneg: "detect_black_bottom cv a = Inr x \<Longrightarrow> 0 \<le> x"
  by (auto simp: detect_black_bottom_def Let_def mask_mean_nonneg)

lemma detect_white_mold_nonneg: "detect_white_mold cv a = Inr x \<Longrightarrow> 0 \<le> x"
  by (simp add: detect_white_mold_def detect_white_fuzzy_spots_nonneg)

lemma detect_green_shoots_nonneg: "detect_green_shoots cv a = Inr x \<Longrightarrow> 0 \<le> x"
  by (auto simp: detect_green_shoots_def Let_def mask_mean_nonneg)

lemma detect_blue_discoloration_nonneg: "detect_blue_discoloration cv a = Inr x \<Longrightarrow> 0 \<le> x"
  by (auto simp: detect_blue_discoloration_def Let_def mask_mean_nonneg)

lemma detect_brown_streaks_nonneg: "detect_brown_streaks cv a = Inr x \<Longrightarrow> 0 \<le> x"
  unfolding detect_brown_streaks_def Let_def
  by (elim and_then_InrD) (auto simp: np_mean_as_float_nonneg)

lemma detect_fuzzy_growth_nonneg: "detect_fuzzy_growth cv g = Inr x \<Longrightarrow> 0 \<le> x"
  unfolding detect_fuzzy_growth_def Let_def
  by (elim and_then_InrD) (auto simp: np_var_nonneg)

lemma detect_irregular_surface_nonneg: "detect_irregular_surface cv g = Inr x \<Longrightarrow> 0 \<le> x"
  unfolding detect_irregular_surface_def Let_def
  by (elim and_then_InrD) (auto simp: np_std_nonneg)

lemma detect_soft_kernels_nonneg: "detect_soft_kernels cv g = Inr x \<Longrightarrow> 0 \<le> x"
  unfolding detect_soft_kernels_def Let_def
  by (elim and_then_InrD) auto

lemma detect_liquid_discharge_nonneg: "detect_liquid_discharge cv a = Inr x \<Longrightarrow> 0 \<le> x"
  unfolding detect_liquid_discharge_def Let_def
  by (elim and_then_InrD) (auto simp: mask_mean_nonneg)

lemma detect_irregular_holes_nonneg: "detect_irregular_holes cv g = Inr x \<Longrightarrow> 0 \<le> x"
  unfolding detect_irregular_holes_def Let_def
  by (elim and_then_InrD) (auto dest: detect_holes_nonneg)

lemma detect_soft_spots_nonneg: "detect_soft_spots cv g = Inr x \<Longrightarrow> 0 \<le> x"
  unfolding detect_soft_spots_def Let_def
  by (elim and_then_InrD) (auto simp: mask_mean_nonneg)

lemma detect_wrinkled_surface_nonneg: "detect_wrinkled_surface cv g = Inr x \<Longrightarrow> 0 \<le> x"
  unfolding detect_wrinkled_surface_def Let_def
  by (elim and_then_InrD) (auto simp: mask_mean_nonneg)

lemma detect_sunken_area_nonneg: "detect_sunken_area cv g = Inr x \<Longrightarrow> 0 \<le> x"
  unfolding detect_sunken_area_def Let_def
  by (elim and_then_InrD) (auto simp: np_mean_as_float_nonneg)

lemma detect_protruding_growth_nonneg: "detect_protruding_growth cv g = Inr x \<Longrightarrow> 0 \<le> x"
  unfolding detect_protruding_growth_def Let_def
  by (elim and_then_InrD) (auto simp: mask_mean_nonneg)

lemma detect_fiber_separation_nonneg: "detect_fiber_separation cv g = Inr x \<Longrightarrow> 0 \<le> x"
  unfolding detect_fiber_separation_def Let_def
  by (elim and_then_InrD) (auto simp: mask_mean_nonneg)

lemma detect_tunnel_patterns_nonneg: "detect_tunnel_patterns cv g = Inr x \<Longrightarrow> 0 \<le> x"
  unfolding detect_tunnel_patterns_def Let_def
  by (elim and_then_InrD) auto

lemmas color_detectors_nonneg =
  detect_gray_spots_nonneg detect_black_mold_nonneg detect_brown_discoloration_nonneg
  detect_yellow_edges_nonneg detect_holes_nonneg detect_white_fuzzy_spots_nonneg
  detect_dark_spots_nonneg detect_deep_red_nonneg detect_black_bottom_nonneg
  detect_white_mold_nonneg detect_green_shoots_nonneg detect_blue_discoloration_nonneg
  detect_brown_streaks_nonneg

lemmas texture_detectors_nonneg =
  detect_fuzzy_growth_nonneg detect_irregular_surface_nonneg detect_soft_kernels_nonneg
  detect_liquid_discharge_nonneg detect_irregular_holes_nonneg detect_soft_spots_nonneg
  detect_wrinkled_surface_nonneg detect_sunken_area_nonneg detect_protruding_growth_nonneg
  detect_fiber_separation_nonneg detect_tunnel_patterns_nonneg

lemma add_weighted_mono:
  assumes "add_weighted acc r w = Inr s" "\<And>x. r = Inr x \<Longrightarrow> 0 \<le> x" "0 \<le> w"
  shows "acc \<le> s"
  using assms by (cases r) (auto simp: add_weighted_def)

lemma color_pattern_step_mono:
  assumes "color_pattern_step cv img hsv_image lab_image pattern acc = Inr s"
  shows "acc \<le> s"
  using assms unfolding color_pattern_step_def
  by (auto split: if_splits elim!: add_weighted_mono dest: color_detectors_nonneg)

lemma texture_pattern_step_mono:
  assumes "texture_pattern_step cv img gray pattern acc = Inr s"
  shows "acc \<le> s"
  using assms unfolding texture_pattern_step_def
  by (auto split: if_splits elim!: add_weighted_mono dest: texture_detectors_nonneg)

lemma color_pattern_loop_mono:
  "color_pattern_loop cv img hsv_image lab_image patterns acc = Inr s \<Longrightarrow> acc \<le> s"
proof (induction patterns arbitrary: acc)
  case Nil
  then show ?case by simp
next
  case (Cons p ps)
  then obtain s' where st: "color_pattern_step cv img hsv_image lab_image p acc = Inr s'"
    and lp: "color_pattern_loop cv img hsv_image lab_image ps s' = Inr s"
    by (auto split: sum.splits)
  from color_pattern_step_mono [OF st] Cons.IH [OF lp] show ?case by simp
qed

lemma texture_pattern_loop_mono:
  "texture_pattern_loop cv img gray patterns acc = Inr s \<Longrightarrow> acc \<le> s"
proof (induction patterns arbitrary: acc)
  case Nil
  then show ?case by simp
next
  case (Cons p ps)
  then obtain s' where st: "texture_pattern_step cv img gray p acc = Inr s'"
    and lp: "texture_pattern_loop cv img gray ps s' = Inr s"
    by (auto split: sum.splits)
  from texture_pattern_step_mono [OF st] Cons.IH [OF lp] show ?case by simp
qed

lemma analyze_color_patterns_bounds:
  assumes "analyze_color_patterns cv img patterns = Inr s"
  shows "0 \<le> s \<and> s \<le> 1"
  using assms color_pattern_loop_mono
  by (fastforce simp: analyze_color_patterns_def split: sum.splits)

lemma analyze_texture_patterns_bounds:
  assumes "analyze_texture_patterns cv img patterns = Inr s"
  shows "0 \<le> s \<and> s \<le> 1"
  using assms texture_pattern_loop_mono
  by (fastforce simp: analyze_texture_patterns_def split: sum.splits)

lemma analyze_disease_pattern_bounds:
  assumes "analyze_disease_pattern cv img patterns crop_type = Inr s"
  shows "0 \<le> s \<and> s \<le> 1"
proof -
  from assms obtain c t where
    c: "analyze_color_patterns cv img (color_patterns patterns) = Inr c"
    and t: "analyze_texture_patterns cv img (texture_patterns patterns) = Inr t"
    and s: "s = 0.6 * c + 0.4 * t"
    by (auto simp: analyze_disease_pattern_def split: sum.splits)
  from analyze_color_patterns_bounds [OF c] analyze_texture_patterns_bounds [OF t] s
  show ?thesis by simp
qed

lemma score_diseases_bounds:
  "score_diseases cv img crop_type ds = Inr scores
     \<Longrightarrow> \<forall>kv \<in> set scores. 0 \<le> snd kv \<and> snd kv \<le> 1"
proof (induction ds arbitrary: scores)
  case Nil
  then show ?case by simp
next
  case (Cons d ds)
  obtain name pats where d: "d = (name, pats)" by (cases d)
  from Cons.prems d obtain s rest where
    a: "analyze_disease_pattern cv img pats crop_type = Inr s"
    and r: "score_diseases cv img crop_type ds = Inr rest"
    and sc: "scores = (name, s) # rest"
    by (auto split: sum.splits)
  from analyze_disease_pattern_bounds [OF a] Cons.IH [OF r] sc show ?case by simp
qed

lemma max_from_mem: "max_from best xs \<in> insert best (set xs)"
  by (induction xs arbitrary: best) (auto split: if_splits)

lemma py_max_key_mem: "py_max_key scores = Inr kv \<Longrightarrow> kv \<in> set scores"
  using max_from_mem by (cases scores) (auto simp: py_max_key_def)

lemma detect_disease_confidence:
  assumes "detect_disease cv img crop_type = Inr r"
  shows "\<exists>c. map_of r ''confidence'' = Some (Float c) \<and> 0 \<le> c \<and> c \<le> 0.95"
proof (cases "map_of disease_patterns crop_type")
  case None
  with assms have "map_of r ''confidence'' = Some (Float 0.5)"
    by (auto simp: detect_disease_def)
  then show ?thesis by (intro exI [of _ "0.5"]) simp
next
  case (Some crop_diseases)
  with assms obtain scores name max_score where
    sc: "score_diseases cv img crop_type crop_diseases = Inr scores"
    and mx: "py_max_key scores = Inr (name, max_score)"
    and c: "map_of r ''confidence'' = Some (Float (min max_score 0.95))"
    by (auto simp: detect_disease_def split: sum.splits)
  have "0 \<le> max_score"
    using score_diseases_bounds [OF sc] py_max_key_mem [OF mx] by auto
  with c show ?thesis by auto
qed

lemma assess_quality_confidence:
  "0 \<le> confidence (assess_quality A image_arg crop_type)
   \<and> confidence (assess_quality A image_arg crop_type) \<le> 0.95"
  by (auto simp: assess_quality_def get_default_result_def decide_def Let_def min_def
        split: option.splits sum.splits)

text \<open>
  Claim C6. The confidence of every result of \<open>assess_quality\<close> lies in the closed
  interval from 0 to 0.95, and so does the confidence of every result that
  \<open>detect_disease\<close> returns, for every image, every crop string and whatever the
  library calls compute.
\<close>

theorem confidence_bounds:
  "0 \<le> confidence (assess_quality A image_arg crop_type)
   \<and> confidence (assess_quality A image_arg crop_type) \<le> 0.95
   \<and> (detect_disease cv img species = Inr r \<longrightarrow>
        (\<exists>c. map_of r ''confidence'' = Some (Float c) \<and> 0 \<le> c \<and> c \<le> 0.95))"
  using assess_quality_confidence [of A image_arg crop_type]
    detect_disease_confidence [of cv img species r]
  by blast

lemma sample_opencv_corn:
  "detect_disease sample_opencv one_pixel ''corn'' =
     Inr [(''disease_type'', Str ''fungal_infection''),
          (''confidence'', Float 0.24),
          (''severity'', Str ''mild''),
          (''description'',
             Str ''Fungal infection detected on corn. Characterized by mold growth and discoloration.''),
          (''all_scores'',
             Scores [(''fungal_infection'', 0.24), (''bacterial_rot'', 0.18),
                     (''pest_damage'', 0), (''overripeness'', 0)])]"
  by (simp add: detect_disease_def disease_patterns_def analyze_disease_pattern_def
        analyze_color_patterns_def analyze_texture_patterns_def color_pattern_step_def
        texture_pattern_step_def add_weighted_def sample_opencv_def py_max_key_def
        determine_severity_def get_disease_description_def descriptions_def
        detect_gray_spots_def detect_black_mold_def detect_brown_discoloration_def
        detect_yellow_edges_def detect_holes_def detect_fuzzy_growth_def
        detect_irregular_surface_def detect_soft_kernels_def detect_liquid_discharge_def
        detect_irregular_holes_def and_then_def Let_def hsv_mask_def mask_mean_def
        elementwise_def np_mean_def np_var_def np_std_def gradient_magnitude_def)

theorem confidence_bounds_witness:
  "detect_disease sample_opencv one_pixel ''corn'' =
     Inr [(''disease_type'', Str ''fungal_infection''),
          (''confidence'', Float 0.24),
          (''severity'', Str ''mild''),
          (''description'',
             Str ''Fungal infection detected on corn. Characterized by mold growth and discoloration.''),
          (''all_scores'',
             Scores [(''fungal_infection'', 0.24), (''bacterial_rot'', 0.18),
                     (''pest_damage'', 0), (''overripeness'', 0)])]
   \<and> (0::real) \<le> 0.24 \<and> (0.24::real) \<le> 0.95
   \<and> 0 \<le> confidence (assess_quality (fixed_analyses 0.9 1 1 1) (Some one_pixel) ''corn'')
   \<and> confidence (assess_quality (fixed_analyses 0.9 1 1 1) (Some one_pixel) ''corn'') \<le> 0.95"
  using sample_opencv_corn
    confidence_bounds [of "fixed_analyses 0.9 1 1 1" "Some one_pixel" "''corn''"
      sample_opencv one_pixel "''corn''"]
  by simp

section \<open>Properties of the Species Classifier\<close>


lemma sum_list_exp_pos: "xs \<noteq> [] \<Longrightarrow> 0 < sum_list (map exp (xs::real list))"
proof (induction xs)
  case Nil
  then show ?case by simp
next
  case (Cons x xs)
  have "0 \<le> sum_list (map exp xs)" by (rule sum_list_nonneg) auto
  moreover have "0 < exp x" by simp
  ultimately show ?case by (simp add: add_pos_nonneg)
qed

lemma exact_softmax_length: "length (exact_softmax xs) = length xs"
  by (simp add: exact_softmax_def)


lemma exact_softmax_mono:
  assumes "i < length xs" "j < length xs" "xs ! i < xs ! j"
  shows "exact_softmax xs ! i < exact_softmax xs ! j"
proof -
  have "xs \<noteq> []" using assms by auto
  then have "0 < sum_list (map exp xs)" by (rule sum_list_exp_pos)
  then show ?thesis using assms by (simp add: exact_softmax_def divide_strict_right_mono)
qed

subsection \<open>The range of doubles\<close>

lemma float_tiny_pos: "0 < float_tiny"
  by (simp add: float_tiny_def)

lemma np_round_in_range: "float_tiny \<le> x \<Longrightarrow> x \<le> float_max \<Longrightarrow> np_round x = Finite x"
  by (simp add: np_round_def)




lemma sum_list_le_length:
  "(\<And>x. x \<in> set xs \<Longrightarrow> f x \<le> (m::real)) \<Longrightarrow> sum_list (map f xs) \<le> real (length xs) * m"
  by (induction xs) (auto simp: algebra_simps add_mono)

subsection \<open>The softmax on doubles\<close>

lemma foldl_np_add_finite:
  assumes "\<forall>a \<in> set as. float_tiny \<le> a" "acc + sum_list as \<le> float_max"
    and "acc = 0 \<or> float_tiny \<le> acc"
  shows "foldl np_add (Finite acc) (map Finite as) = Finite (acc + sum_list as)"
  using assms
proof (induction as arbitrary: acc)
  case Nil
  then show ?case by simp
next
  case (Cons a as)
  have nn: "0 \<le> sum_list as"
    using Cons.prems(1) float_tiny_pos by (intro sum_list_nonneg) (auto intro: order_trans less_imp_le)
  have a: "float_tiny \<le> a" using Cons.prems(1) by simp
  have acc: "0 \<le> acc" using Cons.prems(3) float_tiny_pos by auto
  have "float_tiny \<le> acc + a" using a acc by simp
  moreover have "acc + a \<le> float_max" using Cons.prems(2) nn by simp
  ultimately have r: "np_round (acc + a) = Finite (acc + a)"
    by (rule np_round_in_range)
  have "foldl np_add (Finite (acc + a)) (map Finite as) = Finite (acc + a + sum_list as)"
    using Cons.prems \<open>float_tiny \<le> acc + a\<close> by (intro Cons.IH) (simp_all add: add.assoc)
  then show ?case by (simp add: r add.assoc)
qed

lemma np_sum_finite:
  assumes "\<forall>a \<in> set as. float_tiny \<le> a" "sum_list as \<le> float_max"
  shows "np_sum (map Finite as) = Finite (sum_list as)"
  using foldl_np_add_finite [of as 0] assms by (simp add: np_sum_def)

lemma softmax_in_range:
  assumes t: "\<forall>x \<in> set xs. float_tiny \<le> exp x"
    and m: "sum_list (map exp xs) \<le> float_max"
  shows "softmax xs = map (\<lambda>x. np_round (exp x / sum_list (map exp xs))) xs"
proof -
  have le: "exp x \<le> float_max" if "x \<in> set xs" for x
  proof -
    have "exp x \<le> sum_list (map exp xs)"
      using that by (intro member_le_sum_list) auto
    with m show ?thesis by simp
  qed
  have e: "map np_exp xs = map Finite (map exp xs)"
    using t le by (simp add: np_exp_def np_round_in_range)
  have s: "np_sum (map np_exp xs) = Finite (sum_list (map exp xs))"
    unfolding e using t m by (intro np_sum_finite) auto
  have "np_divide (np_exp x) (Finite (sum_list (map exp xs)))
          = np_round (exp x / sum_list (map exp xs))" if "x \<in> set xs" for x
  proof -
    have "xs \<noteq> []" using that by auto
    then have "sum_list (map exp xs) \<noteq> 0" using sum_list_exp_pos [of xs] by simp
    moreover have "np_exp x = Finite (exp x)"
      using t le that by (simp add: np_exp_def np_round_in_range)
    ultimately show ?thesis by simp
  qed
  then show ?thesis by (simp add: softmax_def Let_def s)
qed

lemma softmax_exact:
  assumes t: "\<forall>x \<in> set xs. float_tiny \<le> exp x"
    and m: "sum_list (map exp xs) \<le> float_max"
    and q: "\<forall>x \<in> set xs. float_tiny * sum_list (map exp xs) \<le> exp x"
  shows "softmax xs = map Finite (exact_softmax xs)"
proof -
  have "np_round (exp x / sum_list (map exp xs)) = Finite (exp x / sum_list (map exp xs))"
    if "x \<in> set xs" for x
  proof -
    have "xs \<noteq> []" using that by auto
    then have pos: "0 < sum_list (map exp xs)" by (rule sum_list_exp_pos)
    have "exp x \<le> sum_list (map exp xs)"
      using that by (intro member_le_sum_list) auto
    then have "exp x / sum_list (map exp xs) \<le> 1" using pos by simp
    moreover have "1 \<le> float_max" by (simp add: float_max_def)
    moreover have "float_tiny \<le> exp x / sum_list (map exp xs)"
      using q that pos by (simp add: field_simps)
    ultimately show ?thesis by (intro np_round_in_range) auto
  qed
  then show ?thesis
    unfolding softmax_in_range [OF t m] exact_softmax_def by simp
qed

lemma softmax_unit_range:
  assumes "length xs = 4" "\<forall>x \<in> set xs. 0 \<le> x \<and> x \<le> 1"
  shows "softmax xs = map Finite (exact_softmax xs)"
proof (rule softmax_exact)
  have one: "1 \<le> exp x" if "x \<in> set xs" for x using assms(2) that by simp
  have three: "exp x \<le> 3" if "x \<in> set xs" for x
  proof -
    have "exp x \<le> exp 1" using assms(2) that by simp
    then show ?thesis using exp_le by (rule order_trans)
  qed
  have s: "sum_list (map exp xs) \<le> 12"
    using sum_list_le_length [of xs exp 3] three assms(1) by simp
  have tiny: "float_tiny * 12 \<le> 1" by (simp add: float_tiny_def)
  have t1: "float_tiny \<le> 1" by (simp add: float_tiny_def)
  show "\<forall>x \<in> set xs. float_tiny \<le> exp x"
  proof
    fix x assume "x \<in> set xs"
    from t1 one [OF this] show "float_tiny \<le> exp x" by (rule order_trans)
  qed
  show "sum_list (map exp xs) \<le> float_max"
    using s by (rule order_trans) (simp add: float_max_def)
  show "\<forall>x \<in> set xs. float_tiny * sum_list (map exp xs) \<le> exp x"
  proof
    fix x assume x: "x \<in> set xs"
    have "float_tiny * sum_list (map exp xs) \<le> float_tiny * 12"
      using s float_tiny_pos by simp
    also have "\<dots> \<le> 1" by (rule tiny)
    also have "\<dots> \<le> exp x" using one x by simp
    finally show "float_tiny * sum_list (map exp xs) \<le> exp x" .
  qed
qed



subsection \<open>The heuristics\<close>



lemma heuristic_scores_unit:
  "0 \<le> corn_score cf tf sf \<and> corn_score cf tf sf \<le> 1"
  "0 \<le> yam_score cf tf sf \<and> yam_score cf tf sf \<le> 1"
  "0 \<le> cassava_score cf tf sf \<and> cassava_score cf tf sf \<le> 1"
  "0 \<le> tomato_score cf tf sf \<and> tomato_score cf tf sf \<le> 1"
  by (simp_all add: corn_score_def yam_score_def cassava_score_def tomato_score_def)


text \<open>
  The heuristics return for no image whose height is not two rows: the edge array of
  \<open>_extract_texture_features\<close> cannot be formed or is empty.
\<close>

lemma heuristics_raise_unless_two_rows:
  assumes "image_height img \<noteq> 2"
  shows "\<exists>e. apply_crop_heuristics N img base_predictions = Inl e"
proof -
  have "\<exists>e. extract_texture_features N img = Inl e"
    using assms
    by (auto simp: extract_texture_features_def edges_rows_def broadcast_rows_def
          split: sum.splits)
  then show ?thesis by (auto simp: apply_crop_heuristics_def Let_def)
qed


lemma hue_zero: "fst (rgb_to_hsv_pixel px) = 0"
  by (cases px) (simp add: rgb_to_hsv_pixel_def Let_def)

lemma mask_mean_eq:
  "mask_mean (pixel_mask P img) = real (length (filter P (concat img))) / real (length (concat img))"
proof -
  have "concat (pixel_mask P img) = map P (concat img)"
    by (simp add: pixel_mask_def map_concat)
  then show ?thesis by (simp add: mask_mean_def filter_map comp_def)
qed

lemma concat_rgb_to_hsv: "concat (rgb_to_hsv img) = map rgb_to_hsv_pixel (concat img)"
  by (simp add: rgb_to_hsv_def map_concat)

lemma dominant_yellow_zero: "dominant_yellow (extract_color_features (rgb_to_hsv img)) = 0"
proof -
  have "filter (\<lambda>(h, s, v). (h \<ge> 0.08 \<and> h \<le> 0.17) \<and> s > 0.3 \<and> v > 0.3)
          (concat (rgb_to_hsv img)) = []"
    using hue_zero by (auto simp: filter_empty_conv concat_rgb_to_hsv split_beta)
  then show ?thesis
    unfolding extract_color_features_def Let_def mask_mean_eq by simp
qed

lemma corn_score_le:
  "corn_score (extract_color_features (rgb_to_hsv img)) tf sf \<le> 0.6"
  by (simp add: corn_score_def dominant_yellow_zero)

text \<open>
  Claim C7. Value and saturation are computed as stated, but the hue is 0 for every pixel,
  also where the channel difference is not 0: pure yellow, green, blue and red all convert
  to hue 0, saturation 1, value 1.
\<close>
theorem hue_never_computed:
  "rgb_to_hsv [[(255, 255, 0)]] = [[(0, 1, 1)]]
   \<and> rgb_to_hsv [[(0, 255, 0)]] = [[(0, 1, 1)]]
   \<and> rgb_to_hsv [[(0, 0, 255), (255, 0, 0)]] = [[(0, 1, 1), (0, 1, 1)]]"
  by (simp add: rgb_to_hsv_def rgb_to_hsv_pixel_def Let_def)

lemma yellow_color_features:
  "extract_color_features (rgb_to_hsv yellow_image)
     = \<lparr>dominant_yellow = 0, dominant_red = 1, dominant_brown = 0, dominant_white = 0\<rparr>"
  by (simp add: extract_color_features_def Let_def mask_mean_def pixel_mask_def rgb_to_hsv_def
        rgb_to_hsv_pixel_def yellow_image_def eval_nat_numeral)

lemma yellow_texture_features:
  "extract_texture_features yellow_numpy yellow_image
     = Inr \<lparr>grid_pattern = 0.125, smooth = 1, rough = 2.6458, fibrous = 0\<rparr>"
  by (simp add: extract_texture_features_def edges_rows_def broadcast_rows_def image_height_def
        image_width_def yellow_image_def yellow_numpy_def eval_nat_numeral)

lemma yellow_shape_features:
  "extract_shape_features yellow_numpy yellow_image
     = Inr \<lparr>elongated = 0.25, round_f = -2, irregular = 1, cylindrical = 4 / 3\<rparr>"
  by (simp add: extract_shape_features_def Let_def edges_rows_def broadcast_rows_def
        image_height_def image_width_def yellow_image_def yellow_numpy_def eval_nat_numeral)

lemma yellow_fused:
  "apply_crop_heuristics yellow_numpy yellow_image base
     = (case fuse base [0, 0.6, 0.3, 0.7] of Inl e \<Rightarrow> Inl e | Inr fs \<Rightarrow> Inr (softmax fs))"
  unfolding apply_crop_heuristics_def Let_def yellow_color_features yellow_shape_features
    yellow_texture_features
  by (simp add: corn_score_def yam_score_def cassava_score_def tomato_score_def)

lemma yellow_scores:
  "apply_crop_heuristics yellow_numpy yellow_image uniform_base
     = Inr (map Finite (exact_softmax [0.175, 0.355, 0.265, 0.385]))"
proof -
  have "softmax [0.175, 0.355, 0.265, 0.385]
          = map Finite (exact_softmax [0.175, 0.355, 0.265, 0.385])"
    by (rule softmax_unit_range) simp_all
  then show ?thesis
    unfolding yellow_fused by (simp add: uniform_base_def fuse_def)
qed






lemma elongated_le:
  assumes "extract_shape_features N img = Inr sf"
    and "5 * image_height img \<le> 3 * image_width img \<or> 5 * image_width img \<le> 3 * image_height img"
  shows "elongated sf \<le> 0.6"
proof -
  let ?h = "real (image_height img)" and ?w = "real (image_width img)"
  from assms(1) have h: "0 < ?h"
    by (auto simp: extract_shape_features_def split: if_splits)
  from assms(1) have e: "elongated sf =
      (if ?w / ?h > 1.5 \<or> ?w / ?h < 0.67 then min (?w / ?h) (1 / (?w / ?h)) else 0)"
    by (auto simp: extract_shape_features_def Let_def split: if_splits sum.splits)
  from assms(2) have "min (?w / ?h) (1 / (?w / ?h)) \<le> 3 / 5"
  proof
    assume "5 * image_height img \<le> 3 * image_width img"
    then have l: "5 * ?h \<le> 3 * ?w" by (metis of_nat_le_iff of_nat_mult of_nat_numeral)
    with h have w: "0 < ?w" by linarith
    have "1 / (?w / ?h) = ?h / ?w" by simp
    also have "\<dots> \<le> 3 / 5" using l w by (simp add: field_simps)
    finally show ?thesis by (rule min.coboundedI2)
  next
    assume "5 * image_width img \<le> 3 * image_height img"
    then have "5 * ?w \<le> 3 * ?h" by (metis of_nat_le_iff of_nat_mult of_nat_numeral)
    then have "?w / ?h \<le> 3 / 5" using h by (simp add: field_simps)
    then show ?thesis by (rule min.coboundedI1)
  qed
  then show ?thesis unfolding e by simp
qed

lemma dominant_red_all_yellow:
  assumes "concat img \<noteq> []" "\<forall>px \<in> set (concat img). px = (255, 255, 0)"
  shows "dominant_red (extract_color_features (rgb_to_hsv img)) = 1"
proof -
  have y: "rgb_to_hsv_pixel (255, 255, 0) = (0, 1, 1)"
    by (simp add: rgb_to_hsv_pixel_def Let_def)
  have "filter (\<lambda>(h, s, v). (h \<le> 0.05 \<or> h \<ge> 0.95) \<and> s > 0.3 \<and> v > 0.3)
          (concat (rgb_to_hsv img)) = concat (rgb_to_hsv img)"
    using assms(2) y by (auto simp: filter_id_conv concat_rgb_to_hsv)
  moreover have "length (concat (rgb_to_hsv img)) \<noteq> 0"
    using assms(1) by (simp add: concat_rgb_to_hsv)
  ultimately show ?thesis
    unfolding extract_color_features_def Let_def mask_mean_eq by simp
qed

text \<open>
  Whatever the texture statistics are, an all-yellow image at least 5:3 wide or tall gives
  corn a smaller probability than tomato for every base vector of probabilities in which
  the score of corn exceeds that of tomato by at most 0.08: the corn score is at most 0.3
  and the tomato score at least 0.5.
\<close>

lemma all_yellow_elongated_corn_below_tomato:
  assumes yellow: "concat img \<noteq> []" "\<forall>px \<in> set (concat img). px = (255, 255, 0)"
    and long: "5 * image_height img \<le> 3 * image_width img
               \<or> 5 * image_width img \<le> 3 * image_height img"
    and base: "base = [b_corn, b_yam, b_cassava, b_tomato]" "b_corn \<le> b_tomato + 0.08"
    and unit: "\<forall>b \<in> set base. 0 \<le> b \<and> b \<le> 1"
    and ret: "apply_crop_heuristics N img base = Inr p"
  shows "\<exists>p_corn p_tomato. p ! 0 = Finite p_corn \<and> p ! 3 = Finite p_tomato \<and> p_corn < p_tomato"
proof -
  let ?cf = "extract_color_features (rgb_to_hsv img)"
  let ?fs = "\<lambda>tf sf. [0.7 * b_corn + 0.3 * corn_score ?cf tf sf,
                      0.7 * b_yam + 0.3 * yam_score ?cf tf sf,
                      0.7 * b_cassava + 0.3 * cassava_score ?cf tf sf,
                      0.7 * b_tomato + 0.3 * tomato_score ?cf tf sf]"
  from ret obtain tf sf where
    sf: "extract_shape_features N img = Inr sf"
    and p: "p = softmax (?fs tf sf)"
    unfolding apply_crop_heuristics_def Let_def base(1)
    by (auto simp: fuse_def split: sum.splits)
  have "\<forall>f \<in> set (?fs tf sf). 0 \<le> f \<and> f \<le> 1"
    using unit heuristic_scores_unit [of ?cf tf sf] unfolding base(1) by simp
  then have ex: "softmax (?fs tf sf) = map Finite (exact_softmax (?fs tf sf))"
    by (intro softmax_unit_range) simp_all
  have "corn_score ?cf tf sf \<le> 0.3"
    using elongated_le [OF sf long] by (simp add: corn_score_def dominant_yellow_zero)
  moreover have "0.5 \<le> tomato_score ?cf tf sf"
    by (simp add: tomato_score_def dominant_red_all_yellow [OF yellow])
  ultimately have "0.7 * b_corn + 0.3 * corn_score ?cf tf sf
      < 0.7 * b_tomato + 0.3 * tomato_score ?cf tf sf"
    using base(2) by simp
  then have "exact_softmax (?fs tf sf) ! 0 < exact_softmax (?fs tf sf) ! 3"
    by (intro exact_softmax_mono) simp_all
  then show ?thesis unfolding p ex by (simp add: exact_softmax_length)
qed

text \<open>
  Claim C8. On the all-yellow image of two rows and eight columns with a uniform base score,
  the heuristics give corn the smallest of the four probabilities and tomato the largest.
  The hue of a yellow pixel is 0, so the yellow mask is empty and the red mask is full; the
  elongation score of a 4:1 image is 0.25, below the threshold of the corn trigger.
\<close>

theorem yellow_elongated_not_corn:
  "apply_crop_heuristics yellow_numpy yellow_image uniform_base
     = Inr (map Finite (exact_softmax [0.175, 0.355, 0.265, 0.385]))
   \<and> exact_softmax [0.175, 0.355, 0.265, 0.385] ! 0
       < exact_softmax [0.175, 0.355, 0.265, 0.385] ! 1
   \<and> exact_softmax [0.175, 0.355, 0.265, 0.385] ! 0
       < exact_softmax [0.175, 0.355, 0.265, 0.385] ! 2
   \<and> exact_softmax [0.175, 0.355, 0.265, 0.385] ! 0
       < exact_softmax [0.175, 0.355, 0.265, 0.385] ! 3
   \<and> predict yellow_numpy yellow_image
       = Inr (zip [''corn'', ''yam'', ''cassava'', ''tomato'']
                (map Finite (exact_softmax [0.175, 0.355, 0.265, 0.385])))"
proof -
  have p: "predict yellow_numpy yellow_image
       = Inr (zip [''corn'', ''yam'', ''cassava'', ''tomato'']
                (map Finite (exact_softmax [0.175, 0.355, 0.265, 0.385])))"
  proof -
    have "model_predict yellow_numpy yellow_image = Inr uniform_base"
      by (simp add: yellow_numpy_def)
    then show ?thesis
      by (simp add: predict_def yellow_scores crop_classes_def exact_softmax_length)
  qed
  show ?thesis
    using yellow_scores p
      exact_softmax_mono [of 0 "[0.175, 0.355, 0.265, 0.385]" 1]
      exact_softmax_mono [of 0 "[0.175, 0.355, 0.265, 0.385]" 2]
      exact_softmax_mono [of 0 "[0.175, 0.355, 0.265, 0.385]" 3]
    by simp
qed

end
